theory Spec2Isabelle
  imports Main "HOL-Library.Sublist"
begin

section \<open>Strings\<close>

text \<open>
  A JavaScript string is modelled as a \<^typ>\<open>string\<close>, one \<^typ>\<open>char\<close> per code unit.
  \<open>s.startsWith(p)\<close> is \<^term>\<open>prefix p s\<close> and \<open>s.includes(p)\<close> is \<^term>\<open>sublist p s\<close>.
\<close>

definition isWhiteSpace :: "char \<Rightarrow> bool" where
  \<comment> \<open>the white space and line terminators that \<open>String.prototype.trim\<close> strips and
      that \<open>\\s\<close> matches, as far as they fit one 8-bit code unit\<close>
  "isWhiteSpace c = (c \<in> set [CHR 0x09, CHR 0x0A, CHR 0x0B, CHR 0x0C, CHR 0x0D, CHR 0x20, CHR 0xA0])"

definition trim :: "string \<Rightarrow> string" where
  "trim s = rev (dropWhile isWhiteSpace (rev (dropWhile isWhiteSpace s)))"

fun splitFrom :: "string \<Rightarrow> string \<Rightarrow> string \<Rightarrow> string list" where
  "splitFrom sep cur [] = [cur]"
| "splitFrom sep cur (c # cs) =
     (if sep \<noteq> [] \<and> prefix sep (c # cs)
      then cur # splitFrom sep [] (drop (length sep) (c # cs))
      else splitFrom sep (cur @ [c]) cs)"

definition splitStr :: "string \<Rightarrow> string \<Rightarrow> string list" where
  \<comment> \<open>\<open>s.split(sep)\<close> for a string separator\<close>
  "splitStr s sep = (if sep = [] then map (\<lambda>c. [c]) s else splitFrom sep [] s)"

fun joinWith :: "string \<Rightarrow> string list \<Rightarrow> string" where
  \<comment> \<open>\<open>xs.join(d)\<close>\<close>
  "joinWith d [] = []"
| "joinWith d [x] = x"
| "joinWith d (x # y # ys) = x @ d @ joinWith d (y # ys)"

definition newline :: string where
  "newline = [CHR 0x0A]"

definition nthOrEmpty :: "string list \<Rightarrow> nat \<Rightarrow> string" where
  \<comment> \<open>\<open>parts[i] || ''\<close>\<close>
  "nthOrEmpty parts i = (if i < length parts then parts ! i else [])"

function splitWsFrom :: "string \<Rightarrow> string \<Rightarrow> string list" where
  "splitWsFrom cur [] = [cur]"
| "splitWsFrom cur (c # cs) =
     (if isWhiteSpace c then cur # splitWsFrom [] (dropWhile isWhiteSpace cs)
      else splitWsFrom (cur @ [c]) cs)"
  by pat_completeness auto
termination
  by (relation "measure (\<lambda>(cur, s). length s)")
     (auto simp: length_dropWhile_le less_Suc_eq_le)

definition splitWs :: "string \<Rightarrow> string list" where
  \<comment> \<open>\<open>s.split(/\\s+/)\<close>\<close>
  "splitWs s = splitWsFrom [] s"

definition orDefault :: "string \<Rightarrow> string \<Rightarrow> string" where
  \<comment> \<open>\<open>s || d\<close> for strings: the empty string is falsy\<close>
  "orDefault s d = (if s = [] then d else s)"

definition lowerChar :: "char \<Rightarrow> char" where
  "lowerChar c =
     (if c \<in> set ''ABCDEFGHIJKLMNOPQRSTUVWXYZ'' then char_of (of_char c + (32::nat)) else c)"

section \<open>Numbers\<close>

text \<open>
  JavaScript numbers are modelled as unbounded integers (\<^typ>\<open>int\<close>); \<open>NaN\<close> is
  \<^term>\<open>None\<close> where it can arise.
\<close>

definition isDigit :: "char \<Rightarrow> bool" where
  "isDigit c = (c \<in> set ''0123456789'')"

definition digitVal :: "char \<Rightarrow> nat" where
  "digitVal c = of_char c - 48"

definition digitsVal :: "string \<Rightarrow> nat" where
  "digitsVal ds = foldl (\<lambda>a c. 10 * a + digitVal c) 0 ds"

definition parseInt10 :: "string \<Rightarrow> int option" where
  \<comment> \<open>\<open>parseInt(s, 10)\<close>: leading white space, an optional sign, then the longest run of
      decimal digits; \<open>NaN\<close> when there is no digit\<close>
  "parseInt10 s =
     (let t = dropWhile isWhiteSpace s;
          neg = (t \<noteq> [] \<and> hd t = CHR ''-'');
          u = (if t \<noteq> [] \<and> (hd t = CHR ''-'' \<or> hd t = CHR ''+'') then tl t else t);
          ds = takeWhile isDigit u
      in if ds = [] then None
         else Some (if neg then - int (digitsVal ds) else int (digitsVal ds)))"

definition orZero :: "int option \<Rightarrow> int" where
  \<comment> \<open>\<open>n || 0\<close>\<close>
  "orZero n = (case n of None \<Rightarrow> 0 | Some k \<Rightarrow> k)"

fun showNat :: "nat \<Rightarrow> string" where
  "showNat n =
     (if n < 10 then [''0123456789'' ! n]
      else showNat (n div 10) @ [''0123456789'' ! (n mod 10)])"

declare showNat.simps [simp del]

definition showInt :: "int \<Rightarrow> string" where
  \<comment> \<open>the number inside a template string\<close>
  "showInt k = (if k < 0 then CHR ''-'' # showNat (nat (- k)) else showNat (nat k))"

fun matchCount :: "string \<Rightarrow> string \<Rightarrow> string option" where
  \<comment> \<open>\<open>line.match(/kw\\s+(\\d+)/i)\<close> for a lower-case word \<open>kw\<close>: the digits captured by
      the leftmost match, if there is one\<close>
  "matchCount kw [] = None"
| "matchCount kw (c # cs) =
     (let rest = drop (length kw) (c # cs);
          ds = takeWhile isDigit (dropWhile isWhiteSpace rest)
      in if map lowerChar (take (length kw) (c # cs)) = kw \<and>
            takeWhile isWhiteSpace rest \<noteq> [] \<and> ds \<noteq> []
         then Some ds
         else matchCount kw cs)"

section \<open>Running commands\<close>

text \<open>
  What a rejected promise or a \<open>throw\<close> carries: \<open>new Error(msg)\<close>, or the error with
  which \<open>execFileAsync\<close> rejects, which has a message and (usually) the captured stderr.
\<close>

datatype js_error =
    Error string
  | ExecError string "string option"

text \<open>
  The outside world (repository, remote, file system) is a state of an arbitrary type \<open>'w\<close>.
  Running a program changes it and yields the captured stdout or a rejection.  Every
  command line that is started is appended to \<open>issued\<close>.
\<close>

record 'w st =
  world :: 'w
  issued :: "string list list"

type_synonym 'w runner = "string list \<Rightarrow> 'w \<Rightarrow> (js_error + string) \<times> 'w"

type_synonym ('a, 'w) io = "'w st \<Rightarrow> (js_error + 'a) \<times> 'w st"

definition returnIO :: "'a \<Rightarrow> ('a, 'w) io" where
  "returnIO x = (\<lambda>s. (Inr x, s))"

definition throwIO :: "js_error \<Rightarrow> ('a, 'w) io" where
  "throwIO e = (\<lambda>s. (Inl e, s))"

definition bindIO :: "('a, 'w) io \<Rightarrow> ('a \<Rightarrow> ('b, 'w) io) \<Rightarrow> ('b, 'w) io" where
  \<comment> \<open>\<open>const x = await m; ...\<close>: a rejection of \<open>m\<close> skips the rest\<close>
  "bindIO m f = (\<lambda>s. case m s of (Inl e, s') \<Rightarrow> (Inl e, s') | (Inr x, s') \<Rightarrow> f x s')"

definition catchIO :: "('a, 'w) io \<Rightarrow> (js_error \<Rightarrow> ('a, 'w) io) \<Rightarrow> ('a, 'w) io" where
  \<comment> \<open>\<open>try { m } catch (e) { h }\<close>\<close>
  "catchIO m h = (\<lambda>s. case m s of (Inl e, s') \<Rightarrow> h e s' | (Inr x, s') \<Rightarrow> (Inr x, s'))"

definition execFileAsync :: "'w runner \<Rightarrow> string list \<Rightarrow> (string, 'w) io" where
  \<comment> \<open>\<open>execFileAsync(file, args, {cwd})\<close>; the command line is \<open>file # args\<close>\<close>
  "execFileAsync run cmd =
     (\<lambda>s. case run cmd (world s) of
            (r, w') \<Rightarrow> (r, \<lparr>world = w', issued = issued s @ [cmd]\<rparr>))"

section \<open>GitService.push\<close>

definition stderrOf :: "js_error \<Rightarrow> string" where
  \<comment> \<open>\<open>(error as { stderr?: string })?.stderr || ''\<close>\<close>
  "stderrOf e = (case e of ExecError m (Some t) \<Rightarrow> t | _ \<Rightarrow> '''')"

definition noUpstream :: "js_error \<Rightarrow> bool" where
  "noUpstream e =
     (sublist ''has no upstream branch'' (stderrOf e) \<or>
      sublist ''no upstream configured'' (stderrOf e))"

definition push :: "'w runner \<Rightarrow> (string, 'w) io" where
  "push run =
     catchIO
       (bindIO (execFileAsync run [''git'', ''push'']) (\<lambda>stdout.
        returnIO (trim stdout)))
       (\<lambda>error.
          if noUpstream error then
            bindIO (execFileAsync run [''git'', ''branch'', ''--show-current'']) (\<lambda>branch.
            bindIO (execFileAsync run
                      [''git'', ''push'', ''--set-upstream'', ''origin'', trim branch]) (\<lambda>stdout.
            returnIO (trim stdout)))
          else throwIO error)"

section \<open>GitService.parseDiffLines\<close>

definition DIFF_HEADER_PREFIXES :: "string list" where
  "DIFF_HEADER_PREFIXES =
     [''diff '', ''index '', ''--- '', ''+++ '', ''@@'', ''new file mode'', ''old file mode'',
      ''deleted file mode'', ''similarity index'', ''rename from'', ''rename to'',
      ''Binary files'']"

datatype line_type = Context | Add | Del

record DiffLine =
  left :: "string option"
  right :: "string option"
  type :: line_type

definition parseLine :: "string \<Rightarrow> DiffLine option" where
  \<comment> \<open>the body of the loop over the raw lines; \<^term>\<open>None\<close> is \<open>continue\<close>\<close>
  "parseLine line =
     (case line of
        [] \<Rightarrow> None
      | pre # content \<Rightarrow>
          if list_ex (\<lambda>p. prefix p line) DIFF_HEADER_PREFIXES then None
          else if pre = CHR 0x5C then None
          else if pre = CHR '' '' then
            Some \<lparr>left = Some content, right = Some content, type = Context\<rparr>
          else if pre = CHR ''-'' then Some \<lparr>left = Some content, right = None, type = Del\<rparr>
          else if pre = CHR ''+'' then Some \<lparr>left = None, right = Some content, type = Add\<rparr>
          else Some \<lparr>left = Some line, right = Some line, type = Context\<rparr>)"

definition parseDiffLines :: "string \<Rightarrow> DiffLine list \<times> bool" where
  \<comment> \<open>the pair is \<open>{ lines, isBinary }\<close>\<close>
  "parseDiffLines stdout =
     (let result = List.map_filter parseLine (splitStr stdout newline)
      in (result, result = [] \<and> sublist ''Binary files'' stdout))"

text \<open>
  The parser as section 4.1 of the specification words it, to compare the code with: lines
  that are empty or match a diff-metadata prefix (file headers, index and mode lines, rename
  and similarity markers, hunk headers, binary-file lines) or are "no newline" markers
  (they start with a backslash) are dropped before classification; of the rest, a line
  beginning with a space is context, with \<open>-\<close> a deletion, with \<open>+\<close> an addition, and
  anything else is context with the whole line on both sides.
\<close>

definition specDropped :: "string \<Rightarrow> bool" where
  "specDropped line =
     (line = [] \<or> (\<exists>p \<in> set DIFF_HEADER_PREFIXES. prefix p line) \<or> hd line = CHR 0x5C)"

definition specClassify :: "string \<Rightarrow> DiffLine" where
  "specClassify line =
     (if hd line = CHR '' '' then \<lparr>left = Some (tl line), right = Some (tl line), type = Context\<rparr>
      else if hd line = CHR ''-'' then \<lparr>left = Some (tl line), right = None, type = Del\<rparr>
      else if hd line = CHR ''+'' then \<lparr>left = None, right = Some (tl line), type = Add\<rparr>
      else \<lparr>left = Some line, right = Some line, type = Context\<rparr>)"

section \<open>GitService.getFileDiff\<close>

text \<open>
  The file system and Node's \<open>path\<close> module.  \<open>stat\<close> gives \<open>(isFile, size)\<close> or nothing
  when \<open>fs.promises.stat\<close> rejects; \<open>readFile\<close> gives the text or nothing when reading
  rejects.  \<open>resolve\<close>, \<open>join\<close> and \<open>sep\<close> are \<open>path.resolve\<close>, \<open>path.join\<close> and
  \<open>path.sep\<close> of the platform.
\<close>

record 'w fsys =
  stat :: "string \<Rightarrow> 'w \<Rightarrow> (bool \<times> nat) option"
  readFile :: "string \<Rightarrow> 'w \<Rightarrow> string option"
  resolve :: "string list \<Rightarrow> string"
  join :: "string list \<Rightarrow> string"
  sep :: string

definition MAX_UNTRACKED_DIFF_BYTES :: nat where
  "MAX_UNTRACKED_DIFF_BYTES = 512 * 1024"

definition readFileTextCapped :: "'w fsys \<Rightarrow> string \<Rightarrow> nat \<Rightarrow> (string option, 'w) io" where
  "readFileTextCapped fs filePath maxBytes =
     (\<lambda>s. (Inr (case stat fs filePath (world s) of
                   None \<Rightarrow> None
                 | Some (isFile, sz) \<Rightarrow>
                     if \<not> isFile \<or> sz > maxBytes then None
                     else readFile fs filePath (world s)), s))"

record FileDiff =
  lines :: "DiffLine list"
  isBinary :: "bool option"

definition addLines :: "string \<Rightarrow> DiffLine list" where
  \<comment> \<open>\<open>content.split('\\n').map((l) => ({ right: l, type: 'add' }))\<close>\<close>
  "addLines content =
     map (\<lambda>l. \<lparr>left = None, right = Some l, type = Add\<rparr>) (splitStr content newline)"

definition delLines :: "string \<Rightarrow> DiffLine list" where
  \<comment> \<open>\<open>prev.split('\\n').map((l) => ({ left: l, type: 'del' }))\<close>\<close>
  "delLines prev =
     map (\<lambda>l. \<lparr>left = Some l, right = None, type = Del\<rparr>) (splitStr prev newline)"

definition outsideWorktree :: "'w fsys \<Rightarrow> string \<Rightarrow> string \<Rightarrow> bool" where
  \<comment> \<open>\<open>!absPath.startsWith(resolvedTaskPath + path.sep) && absPath !== resolvedTaskPath\<close>\<close>
  "outsideWorktree fs taskPath filePath =
     (let absPath = resolve fs [taskPath, filePath];
          resolvedTaskPath = resolve fs [taskPath]
      in \<not> prefix (resolvedTaskPath @ sep fs) absPath \<and> absPath \<noteq> resolvedTaskPath)"

definition getFileDiff :: "'w runner \<Rightarrow> 'w fsys \<Rightarrow> string \<Rightarrow> string \<Rightarrow> (FileDiff, 'w) io" where
  "getFileDiff run fs taskPath filePath =
     (if outsideWorktree fs taskPath filePath
      then throwIO (Error ''File path is outside the worktree'')
      else
        catchIO
          (bindIO (execFileAsync run
                     [''git'', ''diff'', ''--no-color'', ''--unified=2000'', ''HEAD'', ''--'',
                      filePath]) (\<lambda>stdout.
           case parseDiffLines stdout of (result, binary) \<Rightarrow>
             if binary then returnIO \<lparr>lines = [], isBinary = Some True\<rparr>
             else if result = [] then
               catchIO
                 (bindIO (readFileTextCapped fs (join fs [taskPath, filePath])
                            MAX_UNTRACKED_DIFF_BYTES) (\<lambda>content.
                  case content of
                    Some c \<Rightarrow> returnIO \<lparr>lines = addLines c, isBinary = None\<rparr>
                  | None \<Rightarrow>
                      bindIO (execFileAsync run [''git'', ''show'', ''HEAD:'' @ filePath])
                        (\<lambda>prev.
                      returnIO \<lparr>lines = delLines prev, isBinary = None\<rparr>)))
                 (\<lambda>_. returnIO \<lparr>lines = [], isBinary = None\<rparr>)
             else returnIO \<lparr>lines = result, isBinary = None\<rparr>))
          (\<lambda>_.
             bindIO (readFileTextCapped fs (join fs [taskPath, filePath])
                       MAX_UNTRACKED_DIFF_BYTES) (\<lambda>content.
             case content of
               Some c \<Rightarrow> returnIO \<lparr>lines = addLines c, isBinary = None\<rparr>
             | None \<Rightarrow>
                 catchIO
                   (bindIO (execFileAsync run [''git'', ''show'', ''HEAD:'' @ filePath])
                      (\<lambda>prev.
                    returnIO \<lparr>lines = delLines prev, isBinary = None\<rparr>))
                   (\<lambda>_. returnIO \<lparr>lines = [], isBinary = None\<rparr>))))"

section \<open>GitService.getLog\<close>

record Commit =
  hash :: string
  subject :: string
  body :: string
  author :: string
  date :: string
  isPushed :: bool
  tags :: "string list"

record LogResult =
  commits :: "Commit list"
  aheadCount :: int

definition countOrZero :: "string \<Rightarrow> int" where
  \<comment> \<open>\<open>parseInt(countOut.trim(), 10) || 0\<close>\<close>
  "countOrZero countOut = orZero (parseInt10 (trim countOut))"

definition upstreamToHead :: string where
  "upstreamToHead = CHR ''@'' # ''{upstream}..HEAD''"

definition aheadOfUpstream :: "'w runner \<Rightarrow> (int, 'w) io" where
  \<comment> \<open>body of the first \<open>try\<close>: the branch has an upstream tracking ref\<close>
  "aheadOfUpstream run =
     bindIO (execFileAsync run [''git'', ''rev-list'', ''--count'', upstreamToHead])
       (\<lambda>countOut.
     returnIO (countOrZero countOut))"

definition aheadOfOriginBranch :: "'w runner \<Rightarrow> (int, 'w) io" where
  \<comment> \<open>body of the second \<open>try\<close>: compare against \<open>origin/<current-branch>\<close>\<close>
  "aheadOfOriginBranch run =
     bindIO (execFileAsync run [''git'', ''rev-parse'', ''--abbrev-ref'', ''HEAD''])
       (\<lambda>branchOut.
     bindIO (execFileAsync run
               [''git'', ''rev-list'', ''--count'', ''origin/'' @ trim branchOut @ ''..HEAD''])
       (\<lambda>countOut.
     returnIO (countOrZero countOut)))"

definition aheadOfOriginHead :: "'w runner \<Rightarrow> (int, 'w) io" where
  \<comment> \<open>body of the third \<open>try\<close>: compare against \<open>origin/HEAD\<close>\<close>
  "aheadOfOriginHead run =
     bindIO (execFileAsync run
               [''git'', ''symbolic-ref'', ''--short'', ''refs/remotes/origin/HEAD''])
       (\<lambda>defaultBranchOut.
     bindIO (execFileAsync run
               [''git'', ''rev-list'', ''--count'', trim defaultBranchOut @ ''..HEAD''])
       (\<lambda>countOut.
     returnIO (countOrZero countOut)))"

definition computeAheadCount :: "'w runner \<Rightarrow> (int, 'w) io" where
  \<comment> \<open>the block under \<open>if (aheadCount < 0)\<close>\<close>
  "computeAheadCount run =
     catchIO (aheadOfUpstream run)
       (\<lambda>_. catchIO (aheadOfOriginBranch run)
          (\<lambda>_. catchIO (aheadOfOriginHead run)
             (\<lambda>_. returnIO 0)))"

definition FIELD_SEP :: string where
  "FIELD_SEP = ''---FIELD_SEP---''"

definition RECORD_SEP :: string where
  "RECORD_SEP = ''---RECORD_SEP---''"

definition logFormat :: string where
  "logFormat =
     RECORD_SEP @ ''%H'' @ FIELD_SEP @ ''%s'' @ FIELD_SEP @ ''%an'' @ FIELD_SEP @ ''%aI'' @
     FIELD_SEP @ ''%D'' @ FIELD_SEP @ ''%b''"

definition parseTags :: "string \<Rightarrow> string list" where
  "parseTags refs =
     map (drop 5) (filter (prefix ''tag: '') (map trim (splitStr refs '',''))) "

definition parseEntry :: "int \<Rightarrow> int \<Rightarrow> nat \<Rightarrow> string \<Rightarrow> Commit" where
  \<comment> \<open>the function mapped over the log entries, \<open>index\<close> being the position in the page\<close>
  "parseEntry skip ahead index entry =
     (let parts = splitStr (trim entry) FIELD_SEP
      in \<lparr>hash = nthOrEmpty parts 0,
          subject = nthOrEmpty parts 1,
          body = trim (nthOrEmpty parts 5),
          author = nthOrEmpty parts 2,
          date = nthOrEmpty parts 3,
          isPushed = (skip + int index \<ge> ahead),
          tags = parseTags (nthOrEmpty parts 4)\<rparr>)"

definition getLog :: "'w runner \<Rightarrow> int \<Rightarrow> int \<Rightarrow> int option \<Rightarrow> (LogResult, 'w) io" where
  "getLog run maxCount skip knownAheadCount =
     bindIO
       (let known = (case knownAheadCount of None \<Rightarrow> - 1 | Some k \<Rightarrow> k)
        in if known < 0 then computeAheadCount run else returnIO known) (\<lambda>ahead.
     bindIO (execFileAsync run
               [''git'', ''log'', ''--max-count='' @ showInt maxCount, ''--skip='' @ showInt skip,
                ''--pretty=format:'' @ logFormat, ''--'']) (\<lambda>stdout.
     if trim stdout = [] then returnIO \<lparr>commits = [], aheadCount = ahead\<rparr>
     else
       returnIO
         \<lparr>commits =
            map (\<lambda>(index, entry). parseEntry skip ahead index entry)
              (enumerate 0 (filter (\<lambda>entry. trim entry \<noteq> []) (splitStr stdout RECORD_SEP))),
          aheadCount = ahead\<rparr>))"

section \<open>GitService.softResetLastCommit\<close>

definition softResetLastCommit :: "'w runner \<Rightarrow> (string \<times> string, 'w) io" where
  \<comment> \<open>the result is \<open>{ subject, body }\<close>\<close>
  "softResetLastCommit run =
     bindIO
       (catchIO (execFileAsync run [''git'', ''rev-parse'', ''--verify'', ''HEAD~1''])
          (\<lambda>_. throwIO (Error ''Cannot undo the initial commit''))) (\<lambda>_.
     bindIO (getLog run 1 0 None) (\<lambda>log.
     if (case commits log of [] \<Rightarrow> False | c # _ \<Rightarrow> isPushed c)
     then throwIO (Error ''Cannot undo a commit that has already been pushed'')
     else
       bindIO (execFileAsync run [''git'', ''log'', ''-1'', ''--pretty=format:%s''])
         (\<lambda>subject.
       bindIO (execFileAsync run [''git'', ''log'', ''-1'', ''--pretty=format:%b'']) (\<lambda>body.
       bindIO (execFileAsync run [''git'', ''reset'', ''--soft'', ''HEAD~1'']) (\<lambda>_.
       returnIO (trim subject, trim body))))))"

section \<open>GitService.getCommitFileDiff\<close>

definition getCommitFileDiff ::
  "'w runner \<Rightarrow> 'w fsys \<Rightarrow> string \<Rightarrow> string \<Rightarrow> string \<Rightarrow> (FileDiff, 'w) io" where
  "getCommitFileDiff run fs taskPath commitHash filePath =
     (if outsideWorktree fs taskPath filePath
      then throwIO (Error ''File path is outside the worktree'')
      else
        bindIO
          (catchIO
             (bindIO (execFileAsync run
                        [''git'', ''rev-parse'', ''--verify'', commitHash @ ''~1''])
                (\<lambda>_. returnIO True))
             (\<lambda>_. returnIO False)) (\<lambda>hasParent.
        if hasParent then
          bindIO (execFileAsync run
                    [''git'', ''diff'', ''--no-color'', ''--unified=2000'', commitHash @ ''~1'',
                     commitHash, ''--'', filePath]) (\<lambda>stdout.
          case parseDiffLines stdout of (result, binary) \<Rightarrow>
            if binary then returnIO \<lparr>lines = [], isBinary = Some True\<rparr>
            else returnIO \<lparr>lines = result, isBinary = None\<rparr>)
        else
          catchIO
            (bindIO (execFileAsync run [''git'', ''show'', commitHash @ '':'' @ filePath])
               (\<lambda>content.
             returnIO \<lparr>lines = addLines content, isBinary = None\<rparr>))
            (\<lambda>_. returnIO \<lparr>lines = [], isBinary = None\<rparr>)))"

section \<open>gitIpc: branch status\<close>

text \<open>
  What the handlers get from outside this module: the remote-project lookup
  (\<open>resolveRemoteProjectForWorktreePath\<close>, giving the SSH connection id of a remote
  project), \<open>fs.existsSync\<close>, and the two operations of \<open>RemoteGitService\<close> they
  delegate to.
\<close>

record BranchStatus =
  branch :: string
  defaultBranch :: string
  ahead :: int
  behind :: int
  aheadOfDefault :: int

record 'w ipcEnv =
  resolveRemoteProject :: "string \<Rightarrow> 'w \<Rightarrow> string option"
  existsSync :: "string \<Rightarrow> 'w \<Rightarrow> bool"
  remoteGetBranchStatus :: "string \<Rightarrow> string \<Rightarrow> (BranchStatus, 'w) io"
  remoteRenameBranch :: "string \<Rightarrow> string \<Rightarrow> string \<Rightarrow> string \<Rightarrow> (bool, 'w) io"

definition errorMessage :: "js_error \<Rightarrow> string" where
  \<comment> \<open>\<open>error instanceof Error ? error.message : String(error)\<close>\<close>
  "errorMessage e = (case e of Error m \<Rightarrow> m | ExecError m _ \<Rightarrow> m)"

definition upstreamDotsHead :: string where
  "upstreamDotsHead = CHR ''@'' # ''{upstream}...HEAD''"

definition parseLeftRight :: "string \<Rightarrow> int \<times> int" where
  \<comment> \<open>the new \<open>(ahead, behind)\<close> after a \<open>rev-list --left-right --count\<close>, both starting
      from 0\<close>
  "parseLeftRight stdout =
     (let parts = splitWs (trim stdout)
      in if length parts \<ge> 2
         then (orZero (parseInt10 (orDefault (parts ! 1) ''0'')),
               orZero (parseInt10 (orDefault (parts ! 0) ''0'')))
         else (0, 0))"

definition statusFromUpstream :: "string \<Rightarrow> 'w runner \<Rightarrow> (int \<times> int, 'w) io" where
  \<comment> \<open>body of the first \<open>try\<close>\<close>
  "statusFromUpstream GIT run =
     bindIO (execFileAsync run [GIT, ''rev-list'', ''--left-right'', ''--count'', upstreamDotsHead])
       (\<lambda>stdout.
     returnIO (parseLeftRight stdout))"

definition statusFromOriginBranch :: "string \<Rightarrow> 'w runner \<Rightarrow> string \<Rightarrow> (int \<times> int, 'w) io" where
  \<comment> \<open>body of the second \<open>try\<close>\<close>
  "statusFromOriginBranch GIT run br =
     bindIO (execFileAsync run
               [GIT, ''rev-list'', ''--left-right'', ''--count'', ''origin/'' @ br @ ''...HEAD''])
       (\<lambda>stdout.
     returnIO (parseLeftRight stdout))"

definition statusFromShortStatus :: "string \<Rightarrow> 'w runner \<Rightarrow> (int \<times> int, 'w) io" where
  \<comment> \<open>body of the third \<open>try\<close>: \<open>git status -sb\<close>, first line\<close>
  "statusFromShortStatus GIT run =
     bindIO (execFileAsync run [GIT, ''status'', ''-sb'']) (\<lambda>stdout.
     let line = hd (splitStr stdout newline)
     in returnIO
          (case matchCount ''ahead'' line of
             Some m \<Rightarrow> orZero (parseInt10 (orDefault m ''0'')) | None \<Rightarrow> 0,
           case matchCount ''behind'' line of
             Some m \<Rightarrow> orZero (parseInt10 (orDefault m ''0'')) | None \<Rightarrow> 0))"

definition aheadBehind :: "string \<Rightarrow> 'w runner \<Rightarrow> string \<Rightarrow> (int \<times> int, 'w) io" where
  \<comment> \<open>\<open>(ahead, behind)\<close> as left by the nested \<open>try\<close> blocks\<close>
  "aheadBehind GIT run br =
     catchIO (statusFromUpstream GIT run)
       (\<lambda>_. catchIO (statusFromOriginBranch GIT run br)
          (\<lambda>_. catchIO (statusFromShortStatus GIT run)
             (\<lambda>_. returnIO (0, 0))))"

definition resolveDefaultBranch :: "string \<Rightarrow> 'w runner \<Rightarrow> (string, 'w) io" where
  "resolveDefaultBranch GIT run =
     catchIO
       (bindIO (execFileAsync run
                  [''gh'', ''repo'', ''view'', ''--json'', ''defaultBranchRef'', ''-q'',
                   ''.defaultBranchRef.name'']) (\<lambda>stdout.
        returnIO (orDefault (trim stdout) ''main'')))
       (\<lambda>_.
          catchIO
            (bindIO (execFileAsync run
                       [GIT, ''symbolic-ref'', ''--short'', ''refs/remotes/origin/HEAD''])
               (\<lambda>stdout.
             returnIO (orDefault (last (splitStr (trim stdout) ''/'')) ''main'')))
            (\<lambda>_. returnIO ''main''))"

definition localBranchStatus :: "string \<Rightarrow> 'w runner \<Rightarrow> (BranchStatus, 'w) io" where
  \<comment> \<open>the last \<open>try\<close> block of the handler\<close>
  "localBranchStatus GIT run =
     bindIO (execFileAsync run [GIT, ''branch'', ''--show-current'']) (\<lambda>currentBranchOut.
     bindIO (resolveDefaultBranch GIT run) (\<lambda>db.
     bindIO (aheadBehind GIT run (trim currentBranchOut)) (\<lambda>(a, b).
     bindIO
       (if trim currentBranchOut \<noteq> db then
          catchIO
            (bindIO (execFileAsync run
                       [GIT, ''rev-list'', ''--count'', ''origin/'' @ db @ ''..HEAD''])
               (\<lambda>countOut.
             returnIO (countOrZero countOut)))
            (\<lambda>_. returnIO 0)
        else returnIO 0) (\<lambda>d.
     returnIO
       \<lparr>branch = trim currentBranchOut, defaultBranch = db, ahead = a, behind = b,
        aheadOfDefault = d\<rparr>))))"

definition getBranchStatusHandler ::
  "string \<Rightarrow> 'w runner \<Rightarrow> 'w ipcEnv \<Rightarrow> string \<Rightarrow> 'w st \<Rightarrow> (string + BranchStatus) \<times> 'w st" where
  \<comment> \<open>\<open>Inl error\<close> is \<open>{ success: false, error }\<close>, \<open>Inr status\<close> is
      \<open>{ success: true, ...status }\<close>\<close>
  "getBranchStatusHandler GIT run env taskPath s =
     (if taskPath = [] then (Inl ''Path does not exist'', s)
      else
        case resolveRemoteProject env taskPath (world s) of
          Some connectionId \<Rightarrow>
            (case remoteGetBranchStatus env connectionId taskPath s of
               (Inl e, s') \<Rightarrow> (Inl (errorMessage e), s')
             | (Inr status, s') \<Rightarrow> (Inr status, s'))
        | None \<Rightarrow>
            if \<not> existsSync env taskPath (world s) then (Inl ''Path does not exist'', s)
            else
              case execFileAsync run [GIT, ''rev-parse'', ''--is-inside-work-tree''] s of
                (Inl e, s1) \<Rightarrow> (Inl ''Not a git repository'', s1)
              | (Inr out, s1) \<Rightarrow>
                  (case localBranchStatus GIT run s1 of
                     (Inl e, s') \<Rightarrow> (Inl (errorMessage e), s')
                   | (Inr status, s') \<Rightarrow> (Inr status, s')))"

section \<open>gitIpc: renaming a branch\<close>




section \<open>gitIpc: status watchers and remote pollers\<close>

text \<open>
  The two module-level registries and the resources behind them.  Watchers, intervals and
  timers are handles (numbers); \<open>openWatchers\<close> are the \<open>FSWatcher\<close>s created and not yet
  closed, \<open>activeIntervals\<close> the intervals set and not yet cleared, \<open>pendingTimers\<close> the
  debounce timeouts not yet cleared, and \<open>broadcasts\<close> the \<open>git:status-changed\<close> messages
  sent so far, each with its task path and optional error.  The field \<open>watchIds\<close> is
  shared by both kinds of entry.  A JavaScript \<open>Set\<close> is finite, so \<open>size <= 0\<close> is
  emptiness.
\<close>

record GitChange =
  path :: string
  status :: string
  additions :: int
  deletions :: int
  isStaged :: bool

record WatchEntry =
  watchIds :: "string set"

record GitStatusWatchEntry = WatchEntry +
  watcher :: nat
  debounceTimer :: "nat option"

record RemoteStatusPollEntry = WatchEntry +
  intervalId :: nat
  lastStatusHash :: string
  connectionId :: string

record ipcState =
  gitStatusWatchers :: "string \<rightharpoonup> GitStatusWatchEntry"
  remoteStatusPollers :: "string \<rightharpoonup> RemoteStatusPollEntry"
  openWatchers :: "nat set"
  activeIntervals :: "nat set"
  pendingTimers :: "nat set"
  nextHandle :: nat
  broadcasts :: "(string \<times> string option) list"

text \<open>
  What the platform decides: whether \<open>fs.watch\<close> can watch recursively, whether the path
  exists (\<open>fs.existsSync\<close>), and the error \<open>fs.watch\<close> throws for a path, if it throws.
  The identifier drawn by \<open>randomUUID()\<close> is an argument of the two \<open>ensure\<close> functions.
\<close>

record watchEnv =
  supportsRecursiveWatch :: bool
  workspaceExists :: "string \<Rightarrow> bool"
  fsWatchError :: "string \<Rightarrow> js_error option"

definition truthy :: "string option \<Rightarrow> bool" where
  \<comment> \<open>\<open>if (watchId)\<close> for \<open>watchId?: string\<close>\<close>
  "truthy watchId = (case watchId of None \<Rightarrow> False | Some w \<Rightarrow> w \<noteq> [])"

definition ensureRemoteStatusPoller ::
  "string \<Rightarrow> string \<Rightarrow> string \<Rightarrow> ipcState \<Rightarrow> (string + string) \<times> ipcState" where
  \<comment> \<open>\<open>Inr watchId\<close> is \<open>{ success: true, watchId }\<close>\<close>
  "ensureRemoteStatusPoller taskPath conn watchId st =
     (case remoteStatusPollers st taskPath of
        Some existing \<Rightarrow>
          (Inr watchId,
           st\<lparr>remoteStatusPollers := (remoteStatusPollers st)
                 (taskPath \<mapsto> existing\<lparr>watchIds := insert watchId (watchIds existing)\<rparr>)\<rparr>)
      | None \<Rightarrow>
          (Inr watchId,
           st\<lparr>remoteStatusPollers := (remoteStatusPollers st)
                 (taskPath \<mapsto>
                    \<lparr>watchIds = {watchId}, intervalId = nextHandle st, lastStatusHash = [],
                     connectionId = conn\<rparr>),
              activeIntervals := insert (nextHandle st) (activeIntervals st),
              nextHandle := Suc (nextHandle st)\<rparr>))"

definition releaseRemoteStatusPoller :: "string \<Rightarrow> string option \<Rightarrow> ipcState \<Rightarrow> ipcState" where
  "releaseRemoteStatusPoller taskPath watchId st =
     (case remoteStatusPollers st taskPath of
        None \<Rightarrow> st
      | Some entry \<Rightarrow>
          let ids = (if truthy watchId then watchIds entry - {the watchId} else watchIds entry)
          in if ids = {}
             then st\<lparr>activeIntervals := activeIntervals st - {intervalId entry},
                     remoteStatusPollers := (remoteStatusPollers st)(taskPath := None)\<rparr>
             else st\<lparr>remoteStatusPollers := (remoteStatusPollers st)
                       (taskPath \<mapsto> entry\<lparr>watchIds := ids\<rparr>)\<rparr>)"

definition statusHash :: "GitChange list \<Rightarrow> string" where
  \<comment> \<open>\<open>changes.map((c) => `${c.path}:${c.status}:${c.isStaged}`).join('|')\<close>\<close>
  "statusHash changes =
     joinWith ''|''
       (map (\<lambda>c. path c @ '':'' @ status c @ '':'' @ (if isStaged c then ''true'' else ''false''))
          changes)"

definition pollTick :: "string \<Rightarrow> js_error + GitChange list \<Rightarrow> ipcState \<Rightarrow> ipcState" where
  \<comment> \<open>one run of the interval callback, given what \<open>getStatusDetailed\<close> came back with\<close>
  "pollTick taskPath polled st =
     (case polled of
        Inl e \<Rightarrow> st
      | Inr changes \<Rightarrow>
          (case remoteStatusPollers st taskPath of
             None \<Rightarrow> st
           | Some poller \<Rightarrow>
               if statusHash changes \<noteq> lastStatusHash poller
               then st\<lparr>remoteStatusPollers := (remoteStatusPollers st)
                         (taskPath \<mapsto> poller\<lparr>lastStatusHash := statusHash changes\<rparr>),
                       broadcasts := broadcasts st @ [(taskPath, None)]\<rparr>
               else st))"

definition ensureGitStatusWatcher ::
  "watchEnv \<Rightarrow> string \<Rightarrow> string \<Rightarrow> ipcState \<Rightarrow> (string + string) \<times> ipcState" where
  \<comment> \<open>\<open>Inl error\<close> is \<open>{ success: false, error }\<close>, \<open>Inr watchId\<close> is
      \<open>{ success: true, watchId }\<close>\<close>
  "ensureGitStatusWatcher env taskPath watchId st =
     (if \<not> supportsRecursiveWatch env then (Inl ''recursive-watch-unsupported'', st)
      else if taskPath = [] \<or> \<not> workspaceExists env taskPath
      then (Inl ''workspace-unavailable'', st)
      else
        case gitStatusWatchers st taskPath of
          Some existing \<Rightarrow>
            (Inr watchId,
             st\<lparr>gitStatusWatchers := (gitStatusWatchers st)
                   (taskPath \<mapsto> existing\<lparr>watchIds := insert watchId (watchIds existing)\<rparr>)\<rparr>)
        | None \<Rightarrow>
            (case fsWatchError env taskPath of
               Some e \<Rightarrow> (Inl (errorMessage e), st)
             | None \<Rightarrow>
                 (Inr watchId,
                  st\<lparr>gitStatusWatchers := (gitStatusWatchers st)
                        (taskPath \<mapsto>
                           \<lparr>watchIds = {watchId}, watcher = nextHandle st,
                            debounceTimer = None\<rparr>),
                     openWatchers := insert (nextHandle st) (openWatchers st),
                     nextHandle := Suc (nextHandle st)\<rparr>)))"

definition releaseGitStatusWatcher :: "string \<Rightarrow> string option \<Rightarrow> ipcState \<Rightarrow> ipcState" where
  "releaseGitStatusWatcher taskPath watchId st =
     (case gitStatusWatchers st taskPath of
        None \<Rightarrow> st
      | Some entry \<Rightarrow>
          let ids = (if truthy watchId then watchIds entry - {the watchId} else watchIds entry)
          in if ids = {}
             then st\<lparr>pendingTimers := pendingTimers st - set_option (debounceTimer entry),
                     openWatchers := openWatchers st - {watcher entry},
                     gitStatusWatchers := (gitStatusWatchers st)(taskPath := None)\<rparr>
             else st\<lparr>gitStatusWatchers := (gitStatusWatchers st)
                       (taskPath \<mapsto> entry\<lparr>watchIds := ids\<rparr>)\<rparr>)"

definition watchStatus ::
  "watchEnv \<Rightarrow> string option \<Rightarrow> string \<Rightarrow> string \<Rightarrow> ipcState \<Rightarrow> (string + string) \<times> ipcState" where
  \<comment> \<open>the \<open>git:watch-status\<close> handler; \<open>remoteProject\<close> is the SSH connection id found for
      the path, if any\<close>
  "watchStatus env remoteProject taskPath watchId st =
     (case remoteProject of
        Some conn \<Rightarrow> ensureRemoteStatusPoller taskPath conn watchId st
      | None \<Rightarrow> ensureGitStatusWatcher env taskPath watchId st)"

definition unwatchStatus :: "string option \<Rightarrow> string \<Rightarrow> string option \<Rightarrow> ipcState \<Rightarrow> ipcState" where
  \<comment> \<open>the \<open>git:unwatch-status\<close> handler\<close>
  "unwatchStatus remoteProject taskPath watchId st =
     (case remoteProject of
        Some conn \<Rightarrow> releaseRemoteStatusPoller taskPath watchId st
      | None \<Rightarrow> releaseGitStatusWatcher taskPath watchId st)"

section \<open>Commands issued and read-only queries\<close>

text \<open>
  The commands a call has issued since it started; the command lines that
  \<open>softResetLastCommit\<close> runs before the reset, all of which only read the repository
  (\<open>rev-parse --verify HEAD~1\<close>, \<open>rev-parse --abbrev-ref HEAD\<close>,
  \<open>symbolic-ref --short refs/remotes/origin/HEAD\<close>, \<open>rev-list --count <ref>..HEAD\<close> and the
  \<open>log\<close> line of \<open>getLog\<close>); and what it means for given command lines to leave the world
  as it is.
\<close>

definition issuedSince :: "'w st \<Rightarrow> 'w st \<Rightarrow> string list list" where
  "issuedSince s s' = drop (length (issued s)) (issued s')"

definition isQuery :: "string list \<Rightarrow> bool" where
  "isQuery cmd =
     (cmd = [''git'', ''rev-parse'', ''--verify'', ''HEAD~1''] \<or>
      cmd = [''git'', ''rev-parse'', ''--abbrev-ref'', ''HEAD''] \<or>
      cmd = [''git'', ''symbolic-ref'', ''--short'', ''refs/remotes/origin/HEAD''] \<or>
      (case cmd of
         [g, sub, opt, revs] \<Rightarrow>
           g = ''git'' \<and> sub = ''rev-list'' \<and> opt = ''--count'' \<and> suffix ''..HEAD'' revs
       | _ \<Rightarrow> False) \<or>
      (case cmd of
         [g, sub, mc, sk, fmt, dd] \<Rightarrow>
           g = ''git'' \<and> sub = ''log'' \<and> prefix ''--max-count='' mc \<and> prefix ''--skip='' sk \<and>
           fmt = ''--pretty=format:'' @ logFormat \<and> dd = ''--''
       | _ \<Rightarrow> False))"

definition leaveWorld :: "'w runner \<Rightarrow> string list list \<Rightarrow> bool" where
  "leaveWorld run cmds = (\<forall>cmd \<in> set cmds. \<forall>w. snd (run cmd w) = w)"

definition queriesOnly :: "'w runner \<Rightarrow> ('a, 'w) io \<Rightarrow> bool" where
  "queriesOnly run m =
     (\<forall>s. \<exists>new. issued (snd (m s)) = issued s @ new \<and> list_all isQuery new \<and>
               (leaveWorld run new \<longrightarrow> world (snd (m s)) = world s))"

definition revParseParent :: "string list" where
  "revParseParent = [''git'', ''rev-parse'', ''--verify'', ''HEAD~1'']"

definition softReset :: "string list" where
  "softReset = [''git'', ''reset'', ''--soft'', ''HEAD~1'']"

definition latestPushed :: "LogResult \<Rightarrow> bool" where
  "latestPushed log = (case commits log of [] \<Rightarrow> False | c # _ \<Rightarrow> isPushed c)"

section \<open>Concrete runs\<close>

text \<open>
  A runner given by a table from command lines to outcomes; a command that is not in the
  table fails.  It leaves the world (here of type \<^typ>\<open>unit\<close>) alone.
\<close>

definition scripted :: "(string list \<times> (js_error + string)) list \<Rightarrow> unit runner" where
  "scripted tbl cmd w =
     (case map_of tbl cmd of
        Some r \<Rightarrow> (r, w)
      | None \<Rightarrow> (Inl (ExecError ''Command failed'' (Some [])), w))"

definition start :: "unit st" where
  "start = \<lparr>world = (), issued = []\<rparr>"

definition pushNoUpstreamErr :: js_error where
  "pushNoUpstreamErr =
     ExecError ''Command failed: git push''
       (Some ''fatal: The current branch topic has no upstream branch.'')"

definition branchQueryErr :: js_error where
  "branchQueryErr =
     ExecError ''Command failed: git branch --show-current''
       (Some ''error: unknown option show-current'')"

definition upstreamRetryTable :: "(string list \<times> (js_error + string)) list" where
  "upstreamRetryTable =
     [([''git'', ''push''], Inl pushNoUpstreamErr),
      ([''git'', ''branch'', ''--show-current''], Inr (''topic'' @ [CHR 0x0A])),
      ([''git'', ''push'', ''--set-upstream'', ''origin'', ''topic''],
         Inr (''branch topic set up to track origin/topic'' @ [CHR 0x0A]))]"

definition sampleDiff :: string where
  "sampleDiff =
     ''diff --git a/f b/f'' @ newline @
     ''@@ -1,2 +1,2 @@'' @ newline @
     '' keep'' @ newline @
     ''-old'' @ newline @
     ''+new'' @ newline @
     ''stray'' @ newline @
     CHR 0x5C # '' No newline at end of file''"

definition twoCommitsLog :: string where
  "twoCommitsLog =
     RECORD_SEP @ ''c2'' @ FIELD_SEP @ ''second'' @ FIELD_SEP @ ''ann'' @ FIELD_SEP @
       ''2024-01-02'' @ FIELD_SEP @ ''HEAD -> main, tag: v2'' @ FIELD_SEP @ ''more'' @ newline @
     RECORD_SEP @ ''c1'' @ FIELD_SEP @ ''first'' @ FIELD_SEP @ ''bob'' @ FIELD_SEP @
       ''2024-01-01'' @ FIELD_SEP @ ''origin/main'' @ FIELD_SEP"

definition pagedLogTable :: "(string list \<times> (js_error + string)) list" where
  "pagedLogTable =
     [([''git'', ''log'', ''--max-count=50'', ''--skip=0'', ''--pretty=format:'' @ logFormat,
        ''--''],
       Inr twoCommitsLog)]"


definition oneCommitLog :: string where
  "oneCommitLog =
     RECORD_SEP @ ''c2'' @ FIELD_SEP @ ''second'' @ FIELD_SEP @ ''ann'' @ FIELD_SEP @
       ''2024-01-02'' @ FIELD_SEP @ ''HEAD -> main'' @ FIELD_SEP @ ''more''"

text \<open>
  A small repository for the runs of \<open>softResetLastCommit\<close>: the number of commits on the
  branch and how many of them the upstream lacks.  The queries answer from it and leave it
  alone; \<open>git reset --soft HEAD~1\<close> takes the last commit off.
\<close>

record repo =
  commitCount :: nat
  unpushedCount :: nat

definition simGit :: "repo runner" where
  "simGit cmd w =
     (if cmd = revParseParent then
        (if 2 \<le> commitCount w then (Inr (''c1'' @ newline), w)
         else (Inl (ExecError ''Command failed'' (Some ''fatal: Needed a single revision'')), w))
      else if cmd = [''git'', ''rev-list'', ''--count'', upstreamToHead] then
        (Inr (showNat (unpushedCount w) @ newline), w)
      else if cmd = [''git'', ''log'', ''--max-count=1'', ''--skip=0'',
                     ''--pretty=format:'' @ logFormat, ''--''] then
        (Inr oneCommitLog, w)
      else if cmd = [''git'', ''log'', ''-1'', ''--pretty=format:%s''] then (Inr ''second'', w)
      else if cmd = [''git'', ''log'', ''-1'', ''--pretty=format:%b''] then
        (Inr (''more'' @ newline), w)
      else if cmd = softReset then
        (Inr [], \<lparr>commitCount = commitCount w - 1, unpushedCount = unpushedCount w - 1\<rparr>)
      else (Inl (ExecError ''Command failed'' (Some [])), w))"

definition onRepo :: "nat \<Rightarrow> nat \<Rightarrow> repo st" where
  "onRepo n k = \<lparr>world = \<lparr>commitCount = n, unpushedCount = k\<rparr>, issued = []\<rparr>"

definition pushedHeadLog :: LogResult where
  "pushedHeadLog =
     \<lparr>commits =
        [\<lparr>hash = ''c2'', subject = ''second'', body = ''more'', author = ''ann'',
          date = ''2024-01-02'', isPushed = True, tags = []\<rparr>],
      aheadCount = 0\<rparr>"

text \<open>
  A file system for the concrete runs: POSIX paths resolved against the root directory, and
  a fixed table of regular files with their text.
\<close>

fun normSegs :: "bool \<Rightarrow> string list \<Rightarrow> string list \<Rightarrow> string list" where
  \<comment> \<open>the segments of a normalised path; \<open>keepUp\<close> says whether leading \<open>..\<close> are kept\<close>
  "normSegs keepUp acc [] = rev acc"
| "normSegs keepUp acc (seg # segs) =
     (if seg = [] \<or> seg = ''.'' then normSegs keepUp acc segs
      else if seg = ''..'' then
        (if acc \<noteq> [] \<and> hd acc \<noteq> ''..'' then normSegs keepUp (tl acc) segs
         else if keepUp then normSegs keepUp (seg # acc) segs
         else normSegs keepUp acc segs)
      else normSegs keepUp (seg # acc) segs)"

fun resolveFrom :: "string list \<Rightarrow> string \<Rightarrow> string" where
  "resolveFrom [] acc = ''/'' @ acc"
| "resolveFrom (p # ps) acc =
     (if p = [] then resolveFrom ps acc
      else if hd p = CHR ''/'' then p @ ''/'' @ acc
      else resolveFrom ps (p @ ''/'' @ acc))"

definition posixResolve :: "string list \<Rightarrow> string" where
  "posixResolve ps =
     ''/'' @ joinWith ''/'' (normSegs False [] (splitStr (resolveFrom (rev ps) []) ''/''))"

definition posixNormalize :: "string \<Rightarrow> string" where
  "posixNormalize p =
     (if p = [] then ''.''
      else
        let isAbs = (hd p = CHR ''/'');
            trailing = (last p = CHR ''/'');
            body = joinWith ''/'' (normSegs (\<not> isAbs) [] (splitStr p ''/''))
        in if body = [] then (if isAbs then ''/'' else if trailing then ''./'' else ''.'')
           else (if isAbs then ''/'' else []) @ body @ (if trailing then ''/'' else []))"

definition posixJoin :: "string list \<Rightarrow> string" where
  "posixJoin ps =
     (let j = joinWith ''/'' (filter (\<lambda>p. p \<noteq> []) ps)
      in if j = [] then ''.'' else posixNormalize j)"

definition posixFs :: "(string \<times> string) list \<Rightarrow> unit fsys" where
  "posixFs files =
     \<lparr>stat = (\<lambda>p w. map_option (\<lambda>c. (True, length c)) (map_of files p)),
      readFile = (\<lambda>p w. map_of files p),
      resolve = posixResolve,
      join = posixJoin,
      sep = ''/''\<rparr>"

definition untrackedFiles :: "(string \<times> string) list" where
  "untrackedFiles = [(''/repo/new.txt'', ''a'' @ newline @ ''b'')]"

definition bigContent :: string where
  \<comment> \<open>one byte more than \<open>MAX_UNTRACKED_DIFF_BYTES\<close>\<close>
  "bigContent = replicate 524289 (CHR ''a'')"

definition bigFiles :: "(string \<times> string) list" where
  "bigFiles = [(''/repo/big.txt'', bigContent)]"

definition bigTable :: "(string list \<times> (js_error + string)) list" where
  "bigTable = [([''git'', ''show'', ''HEAD:big.txt''], Inr ''old'')]"

definition goneTable :: "(string list \<times> (js_error + string)) list" where
  "goneTable = [([''git'', ''show'', ''HEAD:gone.txt''], Inr (''x'' @ newline @ ''y''))]"

definition localEnv :: "unit ipcEnv" where
  \<comment> \<open>every path is a local directory that exists; nothing is delegated\<close>
  "localEnv =
     \<lparr>resolveRemoteProject = (\<lambda>p w. None),
      existsSync = (\<lambda>p w. True),
      remoteGetBranchStatus = (\<lambda>c p. throwIO (Error ''no connection'')),
      remoteRenameBranch = (\<lambda>c p a b. throwIO (Error ''no connection''))\<rparr>"

definition noRemoteTable :: "(string list \<times> (js_error + string)) list" where
  "noRemoteTable =
     [([''git'', ''rev-parse'', ''--is-inside-work-tree''], Inr (''true'' @ newline)),
      ([''git'', ''branch'', ''--show-current''], Inr (''topic'' @ newline)),
      ([''git'', ''status'', ''-sb''], Inr (''## topic'' @ newline))]"

definition allPushedLog :: LogResult where
  "allPushedLog =
     \<lparr>commits =
        [\<lparr>hash = ''c2'', subject = ''second'', body = ''more'', author = ''ann'',
          date = ''2024-01-02'', isPushed = True, tags = [''v2'']\<rparr>,
         \<lparr>hash = ''c1'', subject = ''first'', body = [], author = ''bob'',
          date = ''2024-01-01'', isPushed = True, tags = []\<rparr>],
      aheadCount = 0\<rparr>"

definition scriptedFailure :: js_error where
  "scriptedFailure = ExecError ''Command failed'' (Some [])"



definition initialIpcState :: ipcState where
  "initialIpcState =
     \<lparr>gitStatusWatchers = Map.empty, remoteStatusPollers = Map.empty, openWatchers = {},
      activeIntervals = {}, pendingTimers = {}, nextHandle = 0, broadcasts = []\<rparr>"

definition macEnv :: watchEnv where
  "macEnv =
     \<lparr>supportsRecursiveWatch = True, workspaceExists = (\<lambda>p. True),
      fsWatchError = (\<lambda>p. None)\<rparr>"

definition polledOnce :: "GitChange list" where
  "polledOnce =
     [\<lparr>path = ''a.ts'', status = ''modified'', additions = 1, deletions = 0, isStaged = False\<rparr>]"

definition polledAgain :: "GitChange list" where
  "polledAgain =
     [\<lparr>path = ''a.ts'', status = ''modified'', additions = 5, deletions = 2, isStaged = False\<rparr>]"

definition polling :: ipcState where
  \<comment> \<open>one subscription to the remote path \<open>/srv/repo\<close>\<close>
  "polling = snd (ensureRemoteStatusPoller ''/srv/repo'' ''conn-1'' ''id-1'' initialIpcState)"

definition watchedOnce :: ipcState where
  \<comment> \<open>one subscription to the local path \<open>/repo\<close>\<close>
  "watchedOnce = snd (watchStatus macEnv None ''/repo'' ''id-1'' initialIpcState)"

section \<open>Basic facts\<close>

lemmas io_defs = returnIO_def throwIO_def bindIO_def catchIO_def execFileAsync_def

lemma noUpstream_pushNoUpstreamErr: "noUpstream pushNoUpstreamErr"
  by (simp add: noUpstream_def pushNoUpstreamErr_def stderrOf_def sublist_code)

section \<open>Push: one retry, only for a missing upstream\<close>

text \<open>
  Claim C1, as the code has it.  \<open>push\<close> starts with a plain \<open>git push\<close>.  If that succeeds,
  or fails with a stderr that does not report a missing upstream, nothing else is run and the
  outcome of the plain push is the outcome of \<open>push\<close> (the error unchanged).  If it fails with
  a stderr reporting a missing upstream, the current branch is asked for
  (\<open>git branch --show-current\<close>); when that query answers, exactly one further command is
  run, \<open>git push --set-upstream origin <branch>\<close>, and its outcome is returned; when the query
  itself fails, its error is returned and no second push is made.
\<close>

theorem push_retry_policy:
  "push run s = (r, s') \<Longrightarrow>
    (case run [''git'', ''push''] (world s) of
       (Inr out, w1) \<Rightarrow> r = Inr (trim out) \<and> issued s' = issued s @ [[''git'', ''push'']]
     | (Inl e, w1) \<Rightarrow>
         if noUpstream e then
           (case run [''git'', ''branch'', ''--show-current''] w1 of
              (Inl e2, w2) \<Rightarrow>
                 r = Inl e2 \<and>
                 issued s' = issued s @ [[''git'', ''push''], [''git'', ''branch'', ''--show-current'']]
            | (Inr b, w2) \<Rightarrow>
                 issued s' = issued s @
                   [[''git'', ''push''], [''git'', ''branch'', ''--show-current''],
                    [''git'', ''push'', ''--set-upstream'', ''origin'', trim b]] \<and>
                 r = (case fst (run [''git'', ''push'', ''--set-upstream'', ''origin'', trim b] w2) of
                        Inl e3 \<Rightarrow> Inl e3 | Inr out \<Rightarrow> Inr (trim out)))
         else r = Inl e \<and> issued s' = issued s @ [[''git'', ''push'']])"
  by (auto simp: push_def io_defs split: prod.splits sum.splits if_splits)

text \<open>A run in which the upstream is missing and the retry goes through.\<close>

theorem push_retry_policy_witness:
  "push (scripted upstreamRetryTable) start =
     (Inr ''branch topic set up to track origin/topic'',
      \<lparr>world = (),
       issued = [[''git'', ''push''], [''git'', ''branch'', ''--show-current''],
                 [''git'', ''push'', ''--set-upstream'', ''origin'', ''topic'']]\<rparr>) \<and>
   issued (snd (push (scripted upstreamRetryTable) start)) =
     issued start @ [[''git'', ''push''], [''git'', ''branch'', ''--show-current''],
                     [''git'', ''push'', ''--set-upstream'', ''origin'', ''topic'']]"
proof -
  have run: "push (scripted upstreamRetryTable) start =
     (Inr ''branch topic set up to track origin/topic'',
      \<lparr>world = (),
       issued = [[''git'', ''push''], [''git'', ''branch'', ''--show-current''],
                 [''git'', ''push'', ''--set-upstream'', ''origin'', ''topic'']]\<rparr>)"
    by (simp add: push_def io_defs scripted_def upstreamRetryTable_def start_def
          noUpstream_pushNoUpstreamErr trim_def isWhiteSpace_def)
  from run push_retry_policy [OF run] show ?thesis
    by (simp add: start_def)
qed

text \<open>
  The claim as stated fails: here the plain push reports a missing upstream, yet no
  upstream-setting push follows, because asking for the current branch fails.
\<close>

theorem push_retry_counterexample:
  "noUpstream pushNoUpstreamErr \<and>
   push (scripted [([''git'', ''push''], Inl pushNoUpstreamErr),
                   ([''git'', ''branch'', ''--show-current''], Inl branchQueryErr)]) start
     = (Inl branchQueryErr,
        \<lparr>world = (), issued = [[''git'', ''push''], [''git'', ''branch'', ''--show-current'']]\<rparr>)"
  by (simp add: noUpstream_def pushNoUpstreamErr_def stderrOf_def sublist_code push_def io_defs
        scripted_def start_def)

section \<open>The diff parser\<close>

lemma parseLine_spec:
  "parseLine line = (if specDropped line then None else Some (specClassify line))"
  by (cases line) (auto simp: parseLine_def specDropped_def specClassify_def list_ex_iff)

lemma map_filter_spec:
  "List.map_filter parseLine xs = map specClassify (filter (\<lambda>l. \<not> specDropped l) xs)"
  by (induction xs) (simp_all add: parseLine_spec)

lemma specClassify_shape:
  "\<not> specDropped line \<Longrightarrow>
     (type (specClassify line) = Context \<longrightarrow>
        left (specClassify line) \<noteq> None \<and> right (specClassify line) = left (specClassify line)) \<and>
     (type (specClassify line) = Del \<longrightarrow>
        left (specClassify line) \<noteq> None \<and> right (specClassify line) = None) \<and>
     (type (specClassify line) = Add \<longrightarrow>
        left (specClassify line) = None \<and> right (specClassify line) \<noteq> None) \<and>
     \<not> (left (specClassify line) = None \<and> right (specClassify line) = None)"
  by (simp add: specClassify_def)

lemma sampleDiff_split:
  "splitStr sampleDiff newline =
     [''diff --git a/f b/f'', ''@@ -1,2 +1,2 @@'', '' keep'', ''-old'', ''+new'', ''stray'',
      CHR 0x5C # '' No newline at end of file'']"
  by (simp add: sampleDiff_def splitStr_def newline_def)

lemma sampleDiff_parse:
  "fst (parseDiffLines sampleDiff) =
     [\<lparr>left = Some ''keep'', right = Some ''keep'', type = Context\<rparr>,
      \<lparr>left = Some ''old'', right = None, type = Del\<rparr>,
      \<lparr>left = None, right = Some ''new'', type = Add\<rparr>,
      \<lparr>left = Some ''stray'', right = Some ''stray'', type = Context\<rparr>]"
  by (simp add: parseDiffLines_def sampleDiff_split parseLine_def DIFF_HEADER_PREFIXES_def)

text \<open>
  Claim C3.  For every raw diff text the parser gives, in order, one record for each raw
  line that is not dropped before classification, and that record is the one the
  specification assigns to the line; so no raw line is classified twice, in particular not
  as both add and del.  Every record has one of three shapes: a context line has both sides
  defined and equal, a del line has only \<open>left\<close>, an add line has only \<open>right\<close>; none has
  both sides undefined.  A line that reaches classification and starts with none of space,
  \<open>-\<close>, \<open>+\<close> becomes a context record holding the whole line on both sides.
\<close>

theorem parseDiffLines_records:
  "fst (parseDiffLines stdout) =
     map specClassify (filter (\<lambda>line. \<not> specDropped line) (splitStr stdout newline)) \<and>
   (\<forall>l \<in> set (fst (parseDiffLines stdout)).
      (type l = Context \<longrightarrow> left l \<noteq> None \<and> right l = left l) \<and>
      (type l = Del \<longrightarrow> left l \<noteq> None \<and> right l = None) \<and>
      (type l = Add \<longrightarrow> left l = None \<and> right l \<noteq> None) \<and>
      \<not> (left l = None \<and> right l = None)) \<and>
   (\<forall>line \<in> set (splitStr stdout newline).
      \<not> specDropped line \<longrightarrow>
      hd line \<notin> {CHR '' '', CHR ''-'', CHR ''+''} \<longrightarrow>
      specClassify line = \<lparr>left = Some line, right = Some line, type = Context\<rparr> \<and>
      \<lparr>left = Some line, right = Some line, type = Context\<rparr> \<in> set (fst (parseDiffLines stdout)))"
proof (intro conjI ballI impI)
  show eq: "fst (parseDiffLines stdout) =
     map specClassify (filter (\<lambda>line. \<not> specDropped line) (splitStr stdout newline))"
    by (simp add: parseDiffLines_def Let_def map_filter_spec)
  {
    fix l assume "l \<in> set (fst (parseDiffLines stdout))"
    then obtain line where "\<not> specDropped line" and l: "l = specClassify line"
      unfolding eq by auto
    from specClassify_shape [OF this(1)]
    show "type l = Context \<Longrightarrow> left l \<noteq> None"
      and "type l = Context \<Longrightarrow> right l = left l"
      and "type l = Del \<Longrightarrow> left l \<noteq> None"
      and "type l = Del \<Longrightarrow> right l = None"
      and "type l = Add \<Longrightarrow> left l = None"
      and "type l = Add \<Longrightarrow> right l \<noteq> None"
      and "\<not> (left l = None \<and> right l = None)"
      unfolding l by blast+
  }
  fix line
  assume a: "line \<in> set (splitStr stdout newline)" "\<not> specDropped line"
    "hd line \<notin> {CHR '' '', CHR ''-'', CHR ''+''}"
  show c: "specClassify line = \<lparr>left = Some line, right = Some line, type = Context\<rparr>"
    using a(3) by (simp add: specClassify_def)
  show "\<lparr>left = Some line, right = Some line, type = Context\<rparr> \<in> set (fst (parseDiffLines stdout))"
    unfolding eq using a(1,2) c by force
qed

text \<open>
  A diff with a header, a hunk header, one line of each kind, a stray line and a "no
  newline" marker.
\<close>

theorem parseDiffLines_records_witness:
  "\<lparr>left = Some ''old'', right = None, type = Del\<rparr> \<in> set (fst (parseDiffLines sampleDiff)) \<and>
   ''stray'' \<in> set (splitStr sampleDiff newline) \<and>
   \<not> specDropped ''stray'' \<and>
   hd ''stray'' \<notin> {CHR '' '', CHR ''-'', CHR ''+''} \<and>
   filter (\<lambda>line. \<not> specDropped line) (splitStr sampleDiff newline) =
     ['' keep'', ''-old'', ''+new'', ''stray''] \<and>
   fst (parseDiffLines sampleDiff) =
     map specClassify ['' keep'', ''-old'', ''+new'', ''stray''] \<and>
   specClassify ''stray'' = \<lparr>left = Some ''stray'', right = Some ''stray'', type = Context\<rparr> \<and>
   \<lparr>left = Some ''stray'', right = Some ''stray'', type = Context\<rparr>
     \<in> set (fst (parseDiffLines sampleDiff))"
proof -
  have mem: "\<lparr>left = Some ''old'', right = None, type = Del\<rparr> \<in> set (fst (parseDiffLines sampleDiff))"
    by (simp add: sampleDiff_parse)
  have line: "''stray'' \<in> set (splitStr sampleDiff newline)"
    by (simp add: sampleDiff_split)
  have kept: "\<not> specDropped ''stray''"
    by (simp add: specDropped_def DIFF_HEADER_PREFIXES_def)
  have pre: "hd ''stray'' \<notin> {CHR '' '', CHR ''-'', CHR ''+''}"
    by simp
  have flt: "filter (\<lambda>line. \<not> specDropped line) (splitStr sampleDiff newline) =
     ['' keep'', ''-old'', ''+new'', ''stray'']"
    by (simp add: sampleDiff_split specDropped_def DIFF_HEADER_PREFIXES_def)
  note T = parseDiffLines_records [of sampleDiff]
  from T have eq: "fst (parseDiffLines sampleDiff) =
     map specClassify ['' keep'', ''-old'', ''+new'', ''stray'']"
    unfolding flt by blast
  from T line kept pre
  have "specClassify ''stray'' = \<lparr>left = Some ''stray'', right = Some ''stray'', type = Context\<rparr> \<and>
   \<lparr>left = Some ''stray'', right = Some ''stray'', type = Context\<rparr>
     \<in> set (fst (parseDiffLines sampleDiff))"
    by blast
  with mem line kept pre flt eq show ?thesis by blast
qed

section \<open>The commit log and the pushed flag\<close>

lemma catchIO_returns:
  "(\<And>e t. \<exists>x. fst (h e t) = Inr x) \<Longrightarrow> \<exists>x. fst (catchIO m h s) = Inr x"
  by (auto simp: catchIO_def split: prod.splits sum.splits)




section \<open>Undoing the last commit\<close>

lemma leaveWorld_append: "leaveWorld run (xs @ ys) = (leaveWorld run xs \<and> leaveWorld run ys)"
  by (auto simp: leaveWorld_def)

lemma queriesOnly_returnIO: "queriesOnly run (returnIO x)"
  by (simp add: queriesOnly_def returnIO_def)

lemma queriesOnly_throwIO: "queriesOnly run (throwIO e)"
  by (simp add: queriesOnly_def throwIO_def)

lemma queriesOnly_exec:
  assumes q: "isQuery cmd"
  shows "queriesOnly (run :: 'w runner) (execFileAsync run cmd)"
  unfolding queriesOnly_def
proof
  fix s :: "'w st"
  obtain r w where rw: "run cmd (world s) = (r, w)" by (cases "run cmd (world s)")
  have "issued (snd (execFileAsync run cmd s)) = issued s @ [cmd]"
    using rw by (simp add: execFileAsync_def)
  moreover have "list_all isQuery [cmd]" using q by simp
  moreover have "world (snd (execFileAsync run cmd s)) = world s" if "leaveWorld run [cmd]"
  proof -
    from that have "snd (run cmd (world s)) = world s" by (simp add: leaveWorld_def)
    with rw show ?thesis by (simp add: execFileAsync_def)
  qed
  ultimately show "\<exists>new. issued (snd (execFileAsync run cmd s)) = issued s @ new \<and>
      list_all isQuery new \<and> (leaveWorld run new \<longrightarrow> world (snd (execFileAsync run cmd s)) = world s)"
    by blast
qed

lemma queriesOnlyD:
  "queriesOnly run m \<Longrightarrow> m s = (r, s') \<Longrightarrow>
     \<exists>new. issued s' = issued s @ new \<and> list_all isQuery new \<and>
           (leaveWorld run new \<longrightarrow> world s' = world s)"
  unfolding queriesOnly_def by (metis snd_conv)

lemma queriesOnly_bindIO:
  assumes "queriesOnly (run :: 'w runner) m" and "\<And>x. queriesOnly run (f x)"
  shows "queriesOnly run (bindIO m f)"
  unfolding queriesOnly_def
proof
  fix s :: "'w st"
  obtain r s1 where m: "m s = (r, s1)" by (cases "m s")
  from queriesOnlyD [OF assms(1) m] obtain n1 where n1: "issued s1 = issued s @ n1"
    "list_all isQuery n1" "leaveWorld run n1 \<longrightarrow> world s1 = world s"
    by blast
  show "\<exists>new. issued (snd (bindIO m f s)) = issued s @ new \<and> list_all isQuery new \<and>
      (leaveWorld run new \<longrightarrow> world (snd (bindIO m f s)) = world s)"
  proof (cases r)
    case (Inl e)
    then show ?thesis using m n1 by (auto simp: bindIO_def)
  next
    case (Inr x)
    obtain r2 s2 where f: "f x s1 = (r2, s2)" by (cases "f x s1")
    from queriesOnlyD [OF assms(2) f] obtain n2 where n2: "issued s2 = issued s1 @ n2"
      "list_all isQuery n2" "leaveWorld run n2 \<longrightarrow> world s2 = world s1"
      by blast
    have "issued s2 = issued s @ (n1 @ n2)" "list_all isQuery (n1 @ n2)"
      "leaveWorld run (n1 @ n2) \<longrightarrow> world s2 = world s"
      using n1 n2 by (simp_all add: leaveWorld_append)
    then show ?thesis using m Inr f by (auto simp: bindIO_def)
  qed
qed

lemma queriesOnly_catchIO:
  assumes "queriesOnly (run :: 'w runner) m" and "\<And>e. queriesOnly run (h e)"
  shows "queriesOnly run (catchIO m h)"
  unfolding queriesOnly_def
proof
  fix s :: "'w st"
  obtain r s1 where m: "m s = (r, s1)" by (cases "m s")
  from queriesOnlyD [OF assms(1) m] obtain n1 where n1: "issued s1 = issued s @ n1"
    "list_all isQuery n1" "leaveWorld run n1 \<longrightarrow> world s1 = world s"
    by blast
  show "\<exists>new. issued (snd (catchIO m h s)) = issued s @ new \<and> list_all isQuery new \<and>
      (leaveWorld run new \<longrightarrow> world (snd (catchIO m h s)) = world s)"
  proof (cases r)
    case (Inr x)
    then show ?thesis using m n1 by (auto simp: catchIO_def)
  next
    case (Inl e)
    obtain r2 s2 where f: "h e s1 = (r2, s2)" by (cases "h e s1")
    from queriesOnlyD [OF assms(2) f] obtain n2 where n2: "issued s2 = issued s1 @ n2"
      "list_all isQuery n2" "leaveWorld run n2 \<longrightarrow> world s2 = world s1"
      by blast
    have "issued s2 = issued s @ (n1 @ n2)" "list_all isQuery (n1 @ n2)"
      "leaveWorld run (n1 @ n2) \<longrightarrow> world s2 = world s"
      using n1 n2 by (simp_all add: leaveWorld_append)
    then show ?thesis using m Inl f by (auto simp: catchIO_def)
  qed
qed

lemmas queriesOnly_intros =
  queriesOnly_bindIO queriesOnly_catchIO queriesOnly_returnIO queriesOnly_throwIO queriesOnly_exec

lemma isQuery_revList: "isQuery [''git'', ''rev-list'', ''--count'', x @ ''..HEAD'']"
  by (simp add: isQuery_def suffix_def)

lemma isQuery_revList_origin:
  "isQuery [''git'', ''rev-list'', ''--count'', ''origin/'' @ x @ ''..HEAD'']"
  using isQuery_revList [of "''origin/'' @ x"] by simp

lemma isQuery_upstream: "isQuery [''git'', ''rev-list'', ''--count'', upstreamToHead]"
  using isQuery_revList [of "CHR ''@'' # ''{upstream}''"] by (simp add: upstreamToHead_def)

lemma isQuery_log:
  "isQuery [''git'', ''log'', ''--max-count='' @ m, ''--skip='' @ k,
            ''--pretty=format:'' @ logFormat, ''--'']"
  by (simp add: isQuery_def)

lemma isQuery_fixed:
  "isQuery [''git'', ''rev-parse'', ''--verify'', ''HEAD~1'']"
  "isQuery [''git'', ''rev-parse'', ''--abbrev-ref'', ''HEAD'']"
  "isQuery [''git'', ''symbolic-ref'', ''--short'', ''refs/remotes/origin/HEAD'']"
  by (simp_all add: isQuery_def)

lemmas isQuery_intros =
  isQuery_revList isQuery_revList_origin isQuery_upstream isQuery_log isQuery_fixed

lemma queriesOnly_computeAheadCount: "queriesOnly run (computeAheadCount run)"
  unfolding computeAheadCount_def aheadOfUpstream_def aheadOfOriginBranch_def
    aheadOfOriginHead_def
  by (intro queriesOnly_intros isQuery_intros)

lemma queriesOnly_getLog: "queriesOnly run (getLog run maxCount skip known)"
proof -
  have pre: "queriesOnly run
      (let k = (case known of None \<Rightarrow> - 1 | Some k \<Rightarrow> k)
       in if k < 0 then computeAheadCount run else returnIO k)"
    by (simp add: Let_def queriesOnly_computeAheadCount queriesOnly_returnIO)
  show ?thesis
    unfolding getLog_def
    by (intro queriesOnly_bindIO pre queriesOnly_exec isQuery_log)
       (simp add: queriesOnly_returnIO)
qed

lemma softReset_unfold:
  "softResetLastCommit run s =
     (case run revParseParent (world s) of
        (Inl e, w1) \<Rightarrow>
          (Inl (Error ''Cannot undo the initial commit''),
           \<lparr>world = w1, issued = issued s @ [revParseParent]\<rparr>)
      | (Inr out, w1) \<Rightarrow>
          (case getLog run 1 0 None \<lparr>world = w1, issued = issued s @ [revParseParent]\<rparr> of
             (Inl e, s1) \<Rightarrow> (Inl e, s1)
           | (Inr log, s1) \<Rightarrow>
               if latestPushed log
               then (Inl (Error ''Cannot undo a commit that has already been pushed''), s1)
               else
                 bindIO (execFileAsync run [''git'', ''log'', ''-1'', ''--pretty=format:%s''])
                   (\<lambda>subject.
                 bindIO (execFileAsync run [''git'', ''log'', ''-1'', ''--pretty=format:%b''])
                   (\<lambda>body.
                 bindIO (execFileAsync run softReset) (\<lambda>_.
                 returnIO (trim subject, trim body)))) s1))"
  by (simp add: softResetLastCommit_def revParseParent_def softReset_def latestPushed_def
        bindIO_def catchIO_def throwIO_def execFileAsync_def
      split: prod.splits sum.splits)

text \<open>
  Claim C2.  When \<open>git rev-parse --verify HEAD~1\<close> fails (HEAD has no parent),
  \<open>softResetLastCommit\<close> fails with the guard error \<open>Cannot undo the initial commit\<close>
  after that one query.  When HEAD has a parent and the log of the latest commit comes back
  with \<open>isPushed\<close> true, it fails with the guard error \<open>Cannot undo a commit that has
  already been pushed\<close>.  In both cases no \<open>git reset\<close> has been started; every command
  line issued is one of the read-only query lines; and if the command lines that were
  issued leave the repository as it is when run, the repository after the call is the
  repository before it.  The reset is issued only when both guards have passed.
\<close>

theorem softReset_guards:
  assumes "softResetLastCommit run s = (r, s')"
  shows
    "(\<forall>e w1. run revParseParent (world s) = (Inl e, w1) \<longrightarrow>
        r = Inl (Error ''Cannot undo the initial commit'') \<and>
        issuedSince s s' = [revParseParent] \<and>
        list_all isQuery (issuedSince s s') \<and>
        (leaveWorld run (issuedSince s s') \<longrightarrow> world s' = world s)) \<and>
     (\<forall>out w1 log s1.
        run revParseParent (world s) = (Inr out, w1) \<and>
        getLog run 1 0 None \<lparr>world = w1, issued = issued s @ [revParseParent]\<rparr> = (Inr log, s1) \<and>
        latestPushed log \<longrightarrow>
        r = Inl (Error ''Cannot undo a commit that has already been pushed'') \<and>
        softReset \<notin> set (issuedSince s s') \<and>
        list_all isQuery (issuedSince s s') \<and>
        (leaveWorld run (issuedSince s s') \<longrightarrow> world s' = world s)) \<and>
     (softReset \<in> set (issuedSince s s') \<longrightarrow>
        (\<exists>out w1 log s1.
           run revParseParent (world s) = (Inr out, w1) \<and>
           getLog run 1 0 None \<lparr>world = w1, issued = issued s @ [revParseParent]\<rparr> = (Inr log, s1) \<and>
           \<not> latestPushed log))"
proof (intro conjI allI impI)
  fix e w1
  assume a: "run revParseParent (world s) = (Inl e, w1)"
  have q: "isQuery revParseParent" by (simp add: isQuery_def revParseParent_def)
  from assms a have r: "r = Inl (Error ''Cannot undo the initial commit'')"
    and s': "s' = \<lparr>world = w1, issued = issued s @ [revParseParent]\<rparr>"
    by (simp_all add: softReset_unfold)
  show "r = Inl (Error ''Cannot undo the initial commit'')" by (rule r)
  show since: "issuedSince s s' = [revParseParent]" by (simp add: s' issuedSince_def)
  show "list_all isQuery (issuedSince s s')" by (simp add: since q)
  show "world s' = world s" if "leaveWorld run (issuedSince s s')"
  proof -
    from that since have "snd (run revParseParent (world s)) = world s"
      by (simp add: leaveWorld_def)
    with a s' show ?thesis by simp
  qed
next
  fix out w1 log s1
  assume a: "run revParseParent (world s) = (Inr out, w1) \<and>
        getLog run 1 0 None \<lparr>world = w1, issued = issued s @ [revParseParent]\<rparr> = (Inr log, s1) \<and>
        latestPushed log"
  have q: "isQuery revParseParent" by (simp add: isQuery_def revParseParent_def)
  have nq: "\<not> isQuery softReset" by (simp add: isQuery_def softReset_def)
  from assms a have r: "r = Inl (Error ''Cannot undo a commit that has already been pushed'')"
    and s': "s' = s1"
    by (simp_all add: softReset_unfold)
  from a have gl: "getLog run 1 0 None \<lparr>world = w1, issued = issued s @ [revParseParent]\<rparr> =
      (Inr log, s1)" by simp
  from queriesOnlyD [OF queriesOnly_getLog gl]
  obtain new where new: "issued s1 = (issued s @ [revParseParent]) @ new" "list_all isQuery new"
    and w: "leaveWorld run new \<longrightarrow> world s1 = w1"
    by auto
  have since: "issuedSince s s' = revParseParent # new"
    by (simp add: issuedSince_def s' new)
  show "r = Inl (Error ''Cannot undo a commit that has already been pushed'')" by (rule r)
  show all: "list_all isQuery (issuedSince s s')" by (simp add: since q new)
  show "softReset \<notin> set (issuedSince s s')"
    using all nq by (auto simp: list_all_iff)
  show "world s' = world s" if "leaveWorld run (issuedSince s s')"
  proof -
    from that since have l1: "snd (run revParseParent (world s)) = world s"
      and l2: "leaveWorld run new"
      by (simp_all add: leaveWorld_def)
    from l1 a have "w1 = world s" by simp
    with w l2 s' show ?thesis by simp
  qed
next
  assume a: "softReset \<in> set (issuedSince s s')"
  have q: "isQuery revParseParent" by (simp add: isQuery_def revParseParent_def)
  have nq: "\<not> isQuery softReset" by (simp add: isQuery_def softReset_def)
  obtain r0 w1 where rp: "run revParseParent (world s) = (r0, w1)"
    by (cases "run revParseParent (world s)")
  show "\<exists>out w1 log s1.
           run revParseParent (world s) = (Inr out, w1) \<and>
           getLog run 1 0 None \<lparr>world = w1, issued = issued s @ [revParseParent]\<rparr> = (Inr log, s1) \<and>
           \<not> latestPushed log"
  proof (cases r0)
    case (Inl e)
    with assms rp have "s' = \<lparr>world = w1, issued = issued s @ [revParseParent]\<rparr>"
      by (simp add: softReset_unfold)
    with a nq q show ?thesis by (auto simp: issuedSince_def)
  next
    case (Inr out)
    obtain r1 s1 where gl: "getLog run 1 0 None \<lparr>world = w1, issued = issued s @ [revParseParent]\<rparr> = (r1, s1)"
      by (cases "getLog run 1 0 None \<lparr>world = w1, issued = issued s @ [revParseParent]\<rparr>")
    from queriesOnlyD [OF queriesOnly_getLog gl]
    obtain new where new: "issued s1 = (issued s @ [revParseParent]) @ new" "list_all isQuery new"
      by auto
    have guard: "s' = s1 \<Longrightarrow> False"
    proof -
      assume "s' = s1"
      then have "issuedSince s s' = revParseParent # new" by (simp add: issuedSince_def new)
      with a q nq new(2) show False by (auto simp: list_all_iff)
    qed
    show ?thesis
    proof (cases r1)
      case (Inl e)
      with assms rp Inr gl have "s' = s1" by (simp add: softReset_unfold)
      with guard show ?thesis by blast
    next
      case r1: (Inr log)
      show ?thesis
      proof (cases "latestPushed log")
        case True
        with assms rp Inr gl r1 have "s' = s1" by (simp add: softReset_unfold)
        with guard show ?thesis by blast
      next
        case False
        with rp Inr gl r1 show ?thesis by blast
      qed
    qed
  qed
qed

lemma pushedHead_log:
  "getLog simGit 1 0 None
      \<lparr>world = world (onRepo 3 0), issued = issued (onRepo 3 0) @ [revParseParent]\<rparr> =
     (Inr pushedHeadLog,
      snd (getLog simGit 1 0 None
             \<lparr>world = world (onRepo 3 0), issued = issued (onRepo 3 0) @ [revParseParent]\<rparr>))"
proof -
  have "fst (getLog simGit 1 0 None
               \<lparr>world = world (onRepo 3 0), issued = issued (onRepo 3 0) @ [revParseParent]\<rparr>) =
      Inr pushedHeadLog"
    by code_simp
  then show ?thesis by (metis prod.collapse)
qed

text \<open>
  Three runs on a repository that the reset changes: one with a single commit; one with
  three commits, all pushed; one with three commits of which the last is not pushed, where
  the reset goes through and takes a commit off.
\<close>

theorem softReset_guards_witness:
  "(simGit revParseParent (world (onRepo 1 1)) =
      (Inl (ExecError ''Command failed'' (Some ''fatal: Needed a single revision'')),
       world (onRepo 1 1)) \<and>
    fst (softResetLastCommit simGit (onRepo 1 1)) = Inl (Error ''Cannot undo the initial commit'') \<and>
    issuedSince (onRepo 1 1) (snd (softResetLastCommit simGit (onRepo 1 1))) = [revParseParent] \<and>
    leaveWorld simGit [revParseParent] \<and>
    world (snd (softResetLastCommit simGit (onRepo 1 1))) = world (onRepo 1 1)) \<and>
   (latestPushed pushedHeadLog \<and>
    fst (softResetLastCommit simGit (onRepo 3 0)) =
      Inl (Error ''Cannot undo a commit that has already been pushed'') \<and>
    softReset \<notin> set (issuedSince (onRepo 3 0) (snd (softResetLastCommit simGit (onRepo 3 0)))) \<and>
    list_all isQuery (issuedSince (onRepo 3 0) (snd (softResetLastCommit simGit (onRepo 3 0)))) \<and>
    leaveWorld simGit (issuedSince (onRepo 3 0) (snd (softResetLastCommit simGit (onRepo 3 0)))) \<and>
    world (snd (softResetLastCommit simGit (onRepo 3 0))) = world (onRepo 3 0)) \<and>
   (softReset \<in> set (issuedSince (onRepo 3 1) (snd (softResetLastCommit simGit (onRepo 3 1)))) \<and>
    world (snd (softResetLastCommit simGit (onRepo 3 1))) = \<lparr>commitCount = 2, unpushedCount = 0\<rparr> \<and>
    world (snd (softResetLastCommit simGit (onRepo 3 1))) \<noteq> world (onRepo 3 1) \<and>
    (\<exists>out w1 log s1.
       simGit revParseParent (world (onRepo 3 1)) = (Inr out, w1) \<and>
       getLog simGit 1 0 None
         \<lparr>world = w1, issued = issued (onRepo 3 1) @ [revParseParent]\<rparr> = (Inr log, s1) \<and>
       \<not> latestPushed log))"
proof (intro conjI)
  let ?A = "softResetLastCommit simGit (onRepo 1 1)"
  have runA: "?A = (fst ?A, snd ?A)" by simp
  show hypA: "simGit revParseParent (world (onRepo 1 1)) =
      (Inl (ExecError ''Command failed'' (Some ''fatal: Needed a single revision'')),
       world (onRepo 1 1))"
    by (simp add: simGit_def onRepo_def)
  show lw: "leaveWorld simGit [revParseParent]"
    by (simp add: leaveWorld_def simGit_def)
  from softReset_guards [OF runA] hypA
  have A: "fst ?A = Inl (Error ''Cannot undo the initial commit'')"
    "issuedSince (onRepo 1 1) (snd ?A) = [revParseParent]"
    "leaveWorld simGit (issuedSince (onRepo 1 1) (snd ?A)) \<longrightarrow>
       world (snd ?A) = world (onRepo 1 1)"
    by blast+
  show "fst ?A = Inl (Error ''Cannot undo the initial commit'')"
    and "issuedSince (onRepo 1 1) (snd ?A) = [revParseParent]"
    by (rule A)+
  show "world (snd ?A) = world (onRepo 1 1)"
    using A(2,3) lw by simp
next
  let ?B = "softResetLastCommit simGit (onRepo 3 0)"
  have runB: "?B = (fst ?B, snd ?B)" by simp
  have rp: "simGit revParseParent (world (onRepo 3 0)) = (Inr (''c1'' @ newline), world (onRepo 3 0))"
    by (simp add: simGit_def onRepo_def)
  show lp: "latestPushed pushedHeadLog"
    by (simp add: latestPushed_def pushedHeadLog_def)
  from softReset_guards [OF runB] rp pushedHead_log lp
  have B: "fst ?B = Inl (Error ''Cannot undo a commit that has already been pushed'')"
    "softReset \<notin> set (issuedSince (onRepo 3 0) (snd ?B))"
    "list_all isQuery (issuedSince (onRepo 3 0) (snd ?B))"
    "leaveWorld simGit (issuedSince (onRepo 3 0) (snd ?B)) \<longrightarrow>
       world (snd ?B) = world (onRepo 3 0)"
    by blast+
  have iss: "issuedSince (onRepo 3 0) (snd ?B) =
      [revParseParent, [''git'', ''rev-list'', ''--count'', upstreamToHead],
       [''git'', ''log'', ''--max-count=1'', ''--skip=0'', ''--pretty=format:'' @ logFormat,
        ''--'']]"
    by code_simp
  show lw: "leaveWorld simGit (issuedSince (onRepo 3 0) (snd ?B))"
    unfolding iss
    by (simp add: leaveWorld_def simGit_def revParseParent_def softReset_def upstreamToHead_def)
  show "fst ?B = Inl (Error ''Cannot undo a commit that has already been pushed'')"
    and "softReset \<notin> set (issuedSince (onRepo 3 0) (snd ?B))"
    and "list_all isQuery (issuedSince (onRepo 3 0) (snd ?B))"
    by (rule B)+
  show "world (snd ?B) = world (onRepo 3 0)"
    using B(4) lw by simp
next
  let ?C = "softResetLastCommit simGit (onRepo 3 1)"
  have runC: "?C = (fst ?C, snd ?C)" by simp
  show issued: "softReset \<in> set (issuedSince (onRepo 3 1) (snd ?C))"
    by code_simp
  show w: "world (snd ?C) = \<lparr>commitCount = 2, unpushedCount = 0\<rparr>"
    by code_simp
  show "world (snd ?C) \<noteq> world (onRepo 3 1)"
    unfolding w by (simp add: onRepo_def)
  from softReset_guards [OF runC] issued
  show "\<exists>out w1 log s1.
       simGit revParseParent (world (onRepo 3 1)) = (Inr out, w1) \<and>
       getLog simGit 1 0 None
         \<lparr>world = w1, issued = issued (onRepo 3 1) @ [revParseParent]\<rparr> = (Inr log, s1) \<and>
       \<not> latestPushed log"
    by blast
qed

section \<open>File diffs: untracked files and the path guard\<close>

lemma joinWith_Cons: "joinWith d (x # xs) = (if xs = [] then x else x @ d @ joinWith d xs)"
  by (cases xs) simp_all

lemma splitFrom_nonempty: "splitFrom d cur s \<noteq> []"
  by (induction d cur s rule: splitFrom.induct) auto

lemma joinWith_splitFrom: "d \<noteq> [] \<Longrightarrow> joinWith d (splitFrom d cur s) = cur @ s"
proof (induction d cur s rule: splitFrom.induct)
  case (1 d cur)
  then show ?case by simp
next
  case (2 d cur c cs)
  show ?case
  proof (cases "prefix d (c # cs)")
    case True
    then have "c # cs = d @ drop (length d) (c # cs)"
      by (metis append_eq_conv_conj prefix_def)
    with 2 True show ?thesis
      by (simp add: joinWith_Cons splitFrom_nonempty del: drop_Suc_Cons)
  next
    case False
    with 2 show ?thesis by simp
  qed
qed

lemma joinWith_splitStr: "d \<noteq> [] \<Longrightarrow> joinWith d (splitStr s d) = s"
  by (simp add: splitStr_def joinWith_splitFrom)

lemma addLines_all_add:
  "list_all (\<lambda>l. type l = Add \<and> left l = None) (addLines c) \<and>
   joinWith newline (map (\<lambda>l. the (right l)) (addLines c)) = c"
  by (simp add: addLines_def list_all_iff comp_def joinWith_splitStr newline_def)

lemma delLines_all_del:
  "list_all (\<lambda>l. type l = Del \<and> right l = None) (delLines c) \<and>
   joinWith newline (map (\<lambda>l. the (left l)) (delLines c)) = c"
  by (simp add: delLines_def list_all_iff comp_def joinWith_splitStr newline_def)

lemma getFileDiff_fallback:
  assumes inside: "\<not> outsideWorktree fs taskPath filePath"
    and diff: "run [''git'', ''diff'', ''--no-color'', ''--unified=2000'', ''HEAD'', ''--'', filePath]
           (world s) = (d, w1)"
    and untracked: "case d of Inl e \<Rightarrow> True | Inr stdout \<Rightarrow> parseDiffLines stdout = ([], False)"
    and read: "readFileTextCapped fs (join fs [taskPath, filePath]) MAX_UNTRACKED_DIFF_BYTES
           \<lparr>world = w1,
            issued = issued s @
              [[''git'', ''diff'', ''--no-color'', ''--unified=2000'', ''HEAD'', ''--'', filePath]]\<rparr>
         = (Inr content, s1)"
  shows "getFileDiff run fs taskPath filePath s =
      (case content of
         Some c \<Rightarrow> (Inr \<lparr>lines = addLines c, isBinary = None\<rparr>, s1)
       | None \<Rightarrow>
           (case run [''git'', ''show'', ''HEAD:'' @ filePath] w1 of
              (Inr prev, w2) \<Rightarrow>
                (Inr \<lparr>lines = delLines prev, isBinary = None\<rparr>,
                 \<lparr>world = w2,
                  issued = issued s @
                    [[''git'', ''diff'', ''--no-color'', ''--unified=2000'', ''HEAD'', ''--'',
                      filePath],
                     [''git'', ''show'', ''HEAD:'' @ filePath]]\<rparr>)
            | (Inl e, w2) \<Rightarrow>
                (Inr \<lparr>lines = [], isBinary = None\<rparr>,
                 \<lparr>world = w2,
                  issued = issued s @
                    [[''git'', ''diff'', ''--no-color'', ''--unified=2000'', ''HEAD'', ''--'',
                      filePath],
                     [''git'', ''show'', ''HEAD:'' @ filePath]]\<rparr>)))"
proof -
  define diffCmd where
    "diffCmd = [''git'', ''diff'', ''--no-color'', ''--unified=2000'', ''HEAD'', ''--'', filePath]"
  define showCmd where "showCmd = [''git'', ''show'', ''HEAD:'' @ filePath]"
  define s0 where "s0 = \<lparr>world = w1, issued = issued s @ [diffCmd]\<rparr>"
  define fallback :: "(FileDiff, 'a) io" where
    "fallback = bindIO (execFileAsync run showCmd) (\<lambda>prev.
                  returnIO \<lparr>lines = delLines prev, isBinary = None\<rparr>)"
  have gfd: "getFileDiff run fs taskPath filePath s =
      catchIO
        (bindIO (execFileAsync run diffCmd) (\<lambda>stdout.
           case parseDiffLines stdout of (result, binary) \<Rightarrow>
             if binary then returnIO \<lparr>lines = [], isBinary = Some True\<rparr>
             else if result = [] then
               catchIO
                 (bindIO (readFileTextCapped fs (join fs [taskPath, filePath])
                            MAX_UNTRACKED_DIFF_BYTES) (\<lambda>content.
                  case content of
                    Some c \<Rightarrow> returnIO \<lparr>lines = addLines c, isBinary = None\<rparr>
                  | None \<Rightarrow> fallback))
                 (\<lambda>_. returnIO \<lparr>lines = [], isBinary = None\<rparr>)
             else returnIO \<lparr>lines = result, isBinary = None\<rparr>))
        (\<lambda>_.
           bindIO (readFileTextCapped fs (join fs [taskPath, filePath])
                     MAX_UNTRACKED_DIFF_BYTES) (\<lambda>content.
           case content of
             Some c \<Rightarrow> returnIO \<lparr>lines = addLines c, isBinary = None\<rparr>
           | None \<Rightarrow>
               catchIO fallback (\<lambda>_. returnIO \<lparr>lines = [], isBinary = None\<rparr>))) s"
    unfolding getFileDiff_def if_not_P [OF inside] diffCmd_def showCmd_def fallback_def ..
  have s1: "s1 = s0"
    using read by (simp add: readFileTextCapped_def s0_def diffCmd_def)
  have read': "readFileTextCapped fs (join fs [taskPath, filePath]) MAX_UNTRACKED_DIFF_BYTES s0
      = (Inr content, s0)"
    using read s1 by (simp add: s0_def diffCmd_def)
  have ex: "execFileAsync run diffCmd s = (d, s0)"
    using diff by (simp add: execFileAsync_def s0_def diffCmd_def)
  obtain r2 w2 where show2: "run showCmd w1 = (r2, w2)"
    by (cases "run showCmd w1")
  have fb: "fallback s0 =
      (case r2 of Inl e \<Rightarrow> Inl e | Inr prev \<Rightarrow> Inr \<lparr>lines = delLines prev, isBinary = None\<rparr>,
       \<lparr>world = w2, issued = issued s @ [diffCmd, showCmd]\<rparr>)"
    using show2
    by (cases r2) (simp_all add: fallback_def bindIO_def execFileAsync_def returnIO_def s0_def)
  have both: "getFileDiff run fs taskPath filePath s =
      (case content of
         Some c \<Rightarrow> (Inr \<lparr>lines = addLines c, isBinary = None\<rparr>, s0)
       | None \<Rightarrow>
           (case r2 of
              Inr prev \<Rightarrow> Inr \<lparr>lines = delLines prev, isBinary = None\<rparr>
            | Inl e \<Rightarrow> Inr \<lparr>lines = [], isBinary = None\<rparr>,
            \<lparr>world = w2, issued = issued s @ [diffCmd, showCmd]\<rparr>))"
  proof (cases d)
    case (Inl e)
    with ex have ex': "execFileAsync run diffCmd s = (Inl e, s0)" by simp
    show ?thesis
      by (cases content; cases r2)
         (simp_all add: gfd catchIO_def bindIO_def returnIO_def ex' read' fb)
  next
    case (Inr stdout)
    with untracked have p: "parseDiffLines stdout = ([], False)" by simp
    from Inr ex have ex': "execFileAsync run diffCmd s = (Inr stdout, s0)" by simp
    show ?thesis
      by (cases content; cases r2)
         (simp_all add: gfd catchIO_def bindIO_def returnIO_def ex' p read' fb)
  qed
  show ?thesis
    using show2 unfolding both
    by (cases content; cases r2) (simp_all add: s1 s0_def diffCmd_def showCmd_def)
qed

lemma length_bigContent: "length bigContent = 524289"
  unfolding bigContent_def by (rule length_replicate)

lemma posix_big:
  "posixJoin [''/repo'', ''big.txt''] = ''/repo/big.txt''"
  "posixResolve [''/repo'', ''big.txt''] = ''/repo/big.txt''"
  "posixResolve [''/repo''] = ''/repo''"
  by code_simp+

text \<open>
  Claim C6, as the code has it.  Take a path inside the worktree whose diff against HEAD
  either fails or parses to no lines without a binary marker.  If the path is a regular file
  of at most 512 KiB (524288 bytes) that can be read, \<open>getFileDiff\<close> returns its current
  content, split at newlines, all of it as add lines.  If it cannot be stat'ed, is not a
  regular file, is larger than 524288 bytes, or cannot be read, \<open>git show HEAD:<file>\<close> is
  asked instead: its output comes back all as del lines, or, when that command fails, the
  result is the empty sequence.  None of these cases is an error.
\<close>

theorem getFileDiff_untracked:
  "\<not> outsideWorktree fs taskPath filePath \<Longrightarrow>
   run [''git'', ''diff'', ''--no-color'', ''--unified=2000'', ''HEAD'', ''--'', filePath]
     (world s) = (d, w1) \<Longrightarrow>
   (case d of Inl e \<Rightarrow> True | Inr stdout \<Rightarrow> parseDiffLines stdout = ([], False)) \<Longrightarrow>
   (\<forall>sz c. stat fs (join fs [taskPath, filePath]) w1 = Some (True, sz) \<and> sz \<le> 524288 \<and>
        readFile fs (join fs [taskPath, filePath]) w1 = Some c \<longrightarrow>
      fst (getFileDiff run fs taskPath filePath s) = Inr \<lparr>lines = addLines c, isBinary = None\<rparr> \<and>
      list_all (\<lambda>l. type l = Add \<and> left l = None) (addLines c) \<and>
      joinWith newline (map (\<lambda>l. the (right l)) (addLines c)) = c) \<and>
   (stat fs (join fs [taskPath, filePath]) w1 = None \<or>
    (\<exists>sz. stat fs (join fs [taskPath, filePath]) w1 = Some (False, sz)) \<or>
    (\<exists>sz. stat fs (join fs [taskPath, filePath]) w1 = Some (True, sz) \<and> 524288 < sz) \<or>
    readFile fs (join fs [taskPath, filePath]) w1 = None \<longrightarrow>
      (\<forall>prev w2. run [''git'', ''show'', ''HEAD:'' @ filePath] w1 = (Inr prev, w2) \<longrightarrow>
         fst (getFileDiff run fs taskPath filePath s) =
           Inr \<lparr>lines = delLines prev, isBinary = None\<rparr> \<and>
         list_all (\<lambda>l. type l = Del \<and> right l = None) (delLines prev) \<and>
         joinWith newline (map (\<lambda>l. the (left l)) (delLines prev)) = prev) \<and>
      (\<forall>e w2. run [''git'', ''show'', ''HEAD:'' @ filePath] w1 = (Inl e, w2) \<longrightarrow>
         fst (getFileDiff run fs taskPath filePath s) = Inr \<lparr>lines = [], isBinary = None\<rparr>))"
proof -
  assume a: "\<not> outsideWorktree fs taskPath filePath"
    "run [''git'', ''diff'', ''--no-color'', ''--unified=2000'', ''HEAD'', ''--'', filePath]
       (world s) = (d, w1)"
    "case d of Inl e \<Rightarrow> True | Inr stdout \<Rightarrow> parseDiffLines stdout = ([], False)"
  define P where "P = join fs [taskPath, filePath]"
  define s0 :: "'a st" where "s0 = \<lparr>world = w1,
        issued = issued s @
          [[''git'', ''diff'', ''--no-color'', ''--unified=2000'', ''HEAD'', ''--'', filePath]]\<rparr>"
  define content where "content = (case stat fs P w1 of
                   None \<Rightarrow> None
                 | Some (isFile, sz) \<Rightarrow>
                     if \<not> isFile \<or> sz > 524288 then None
                     else readFile fs P w1)"
  have rd: "readFileTextCapped fs (join fs [taskPath, filePath]) MAX_UNTRACKED_DIFF_BYTES
       \<lparr>world = w1,
        issued = issued s @
          [[''git'', ''diff'', ''--no-color'', ''--unified=2000'', ''HEAD'', ''--'', filePath]]\<rparr>
     = (Inr content, s0)"
    by (simp add: readFileTextCapped_def content_def P_def s0_def MAX_UNTRACKED_DIFF_BYTES_def
          split: option.splits)
  note fb = getFileDiff_fallback [of fs taskPath filePath run s d w1 content s0, OF a rd]
  have small: "content = Some c"
    if "stat fs P w1 = Some (True, sz)" "sz \<le> 524288" "readFile fs P w1 = Some c" for sz c
    using that by (simp add: content_def)
  have none: "content = None"
    if "stat fs P w1 = None \<or> (\<exists>sz. stat fs P w1 = Some (False, sz)) \<or>
        (\<exists>sz. stat fs P w1 = Some (True, sz) \<and> 524288 < sz) \<or> readFile fs P w1 = None"
    using that by (auto simp: content_def split: option.splits)
  have A: "fst (getFileDiff run fs taskPath filePath s) = Inr \<lparr>lines = addLines c, isBinary = None\<rparr>"
    if "content = Some c" for c
    using that by (simp add: fb)
  have B: "fst (getFileDiff run fs taskPath filePath s) = Inr \<lparr>lines = delLines prev, isBinary = None\<rparr>"
    if "content = None" "run [''git'', ''show'', ''HEAD:'' @ filePath] w1 = (Inr prev, w2)" for prev w2
    using that by (simp add: fb)
  have C: "fst (getFileDiff run fs taskPath filePath s) = Inr \<lparr>lines = [], isBinary = None\<rparr>"
    if "content = None" "run [''git'', ''show'', ''HEAD:'' @ filePath] w1 = (Inl e, w2)" for e w2
    using that by (simp add: fb)
  show ?thesis
    unfolding P_def [symmetric]
  proof (intro conjI allI impI)
    fix sz c
    assume h: "stat fs P w1 = Some (True, sz) \<and> sz \<le> 524288 \<and> readFile fs P w1 = Some c"
    from h have "content = Some c" by (simp add: small)
    then show "fst (getFileDiff run fs taskPath filePath s) =
        Inr \<lparr>lines = addLines c, isBinary = None\<rparr>"
      by (rule A)
    show "list_all (\<lambda>l. type l = Add \<and> left l = None) (addLines c)"
      by (simp add: addLines_all_add)
    show "joinWith newline (map (\<lambda>l. the (right l)) (addLines c)) = c"
      by (simp add: addLines_all_add)
  next
    fix prev w2
    assume h: "stat fs P w1 = None \<or> (\<exists>sz. stat fs P w1 = Some (False, sz)) \<or>
        (\<exists>sz. stat fs P w1 = Some (True, sz) \<and> 524288 < sz) \<or> readFile fs P w1 = None"
      and r: "run [''git'', ''show'', ''HEAD:'' @ filePath] w1 = (Inr prev, w2)"
    from h have "content = None" by (rule none)
    then show "fst (getFileDiff run fs taskPath filePath s) =
        Inr \<lparr>lines = delLines prev, isBinary = None\<rparr>"
      using r by (rule B)
    show "list_all (\<lambda>l. type l = Del \<and> right l = None) (delLines prev)"
      by (simp add: delLines_all_del)
    show "joinWith newline (map (\<lambda>l. the (left l)) (delLines prev)) = prev"
      by (simp add: delLines_all_del)
  next
    fix e w2
    assume h: "stat fs P w1 = None \<or> (\<exists>sz. stat fs P w1 = Some (False, sz)) \<or>
        (\<exists>sz. stat fs P w1 = Some (True, sz) \<and> 524288 < sz) \<or> readFile fs P w1 = None"
      and r: "run [''git'', ''show'', ''HEAD:'' @ filePath] w1 = (Inl e, w2)"
    from h have "content = None" by (rule none)
    then show "fst (getFileDiff run fs taskPath filePath s) = Inr \<lparr>lines = [], isBinary = None\<rparr>"
      using r by (rule C)
  qed
qed

text \<open>
  Four runs on a POSIX file system under \<open>/repo\<close>: an untracked readable file, a file
  that is gone from disk but present in HEAD, one that is in neither place, and an untracked
  file of 524289 bytes.
\<close>

theorem getFileDiff_untracked_witness:
  "\<not> outsideWorktree (posixFs untrackedFiles) ''/repo'' ''new.txt'' \<and>
   fst (getFileDiff (scripted []) (posixFs untrackedFiles) ''/repo'' ''new.txt'' start) =
     Inr \<lparr>lines = [\<lparr>left = None, right = Some ''a'', type = Add\<rparr>,
                   \<lparr>left = None, right = Some ''b'', type = Add\<rparr>],
          isBinary = None\<rparr> \<and>
   \<not> outsideWorktree (posixFs []) ''/repo'' ''gone.txt'' \<and>
   fst (getFileDiff (scripted goneTable) (posixFs []) ''/repo'' ''gone.txt'' start) =
     Inr \<lparr>lines = [\<lparr>left = Some ''x'', right = None, type = Del\<rparr>,
                   \<lparr>left = Some ''y'', right = None, type = Del\<rparr>],
          isBinary = None\<rparr> \<and>
   fst (getFileDiff (scripted []) (posixFs []) ''/repo'' ''gone.txt'' start) =
     Inr \<lparr>lines = [], isBinary = None\<rparr> \<and>
   \<not> outsideWorktree (posixFs bigFiles) ''/repo'' ''big.txt'' \<and>
   fst (getFileDiff (scripted bigTable) (posixFs bigFiles) ''/repo'' ''big.txt'' start) =
     Inr \<lparr>lines = [\<lparr>left = Some ''old'', right = None, type = Del\<rparr>], isBinary = None\<rparr>"
proof -
  let ?err = "Inl (ExecError ''Command failed'' (Some [])) :: js_error + string"
  have in1: "\<not> outsideWorktree (posixFs untrackedFiles) ''/repo'' ''new.txt''"
    by code_simp
  have in2: "\<not> outsideWorktree (posixFs []) ''/repo'' ''gone.txt''"
    by code_simp
  have in4: "\<not> outsideWorktree (posixFs bigFiles) ''/repo'' ''big.txt''"
    by (simp add: outsideWorktree_def posixFs_def posix_big)
  have d1: "scripted [] [''git'', ''diff'', ''--no-color'', ''--unified=2000'', ''HEAD'', ''--'', ''new.txt'']
      (world start) = (?err, ())"
    by (simp add: scripted_def)
  have d2: "scripted goneTable [''git'', ''diff'', ''--no-color'', ''--unified=2000'', ''HEAD'', ''--'', ''gone.txt'']
      (world start) = (?err, ())"
    by (simp add: scripted_def goneTable_def)
  have d3: "scripted [] [''git'', ''diff'', ''--no-color'', ''--unified=2000'', ''HEAD'', ''--'', ''gone.txt'']
      (world start) = (?err, ())"
    by (simp add: scripted_def)
  have d4: "scripted bigTable [''git'', ''diff'', ''--no-color'', ''--unified=2000'', ''HEAD'', ''--'', ''big.txt'']
      (world start) = (?err, ())"
    by (simp add: scripted_def bigTable_def)
  have u: "case ?err of Inl e \<Rightarrow> True | Inr stdout \<Rightarrow> parseDiffLines stdout = ([], False)"
    by simp
  have j1: "posixJoin [''/repo'', ''new.txt''] = ''/repo/new.txt''"
    and j2: "posixJoin [''/repo'', ''gone.txt''] = ''/repo/gone.txt''"
    by code_simp+
  have st1: "stat (posixFs untrackedFiles) (join (posixFs untrackedFiles) [''/repo'', ''new.txt'']) () =
      Some (True, 3)"
    and rf1: "readFile (posixFs untrackedFiles) (join (posixFs untrackedFiles) [''/repo'', ''new.txt'']) () =
      Some (''a'' @ newline @ ''b'')"
    by (simp_all add: posixFs_def j1 untrackedFiles_def newline_def)
  have st2: "stat (posixFs []) (join (posixFs []) [''/repo'', ''gone.txt'']) () = None"
    by (simp add: posixFs_def)
  have st4: "stat (posixFs bigFiles) (join (posixFs bigFiles) [''/repo'', ''big.txt'']) () =
      Some (True, 524289)"
    by (simp add: posixFs_def posix_big bigFiles_def length_bigContent)
  have s2: "scripted goneTable [''git'', ''show'', ''HEAD:'' @ ''gone.txt''] () = (Inr (''x'' @ newline @ ''y''), ())"
    by (simp add: scripted_def goneTable_def)
  have s3: "scripted [] [''git'', ''show'', ''HEAD:'' @ ''gone.txt''] () = (?err, ())"
    by (simp add: scripted_def)
  have s4: "scripted bigTable [''git'', ''show'', ''HEAD:'' @ ''big.txt''] () = (Inr ''old'', ())"
    by (simp add: scripted_def bigTable_def)
  have a1: "addLines (''a'' @ newline @ ''b'') = [\<lparr>left = None, right = Some ''a'', type = Add\<rparr>,
                   \<lparr>left = None, right = Some ''b'', type = Add\<rparr>]"
    by code_simp
  have a2: "delLines (''x'' @ newline @ ''y'') = [\<lparr>left = Some ''x'', right = None, type = Del\<rparr>,
                   \<lparr>left = Some ''y'', right = None, type = Del\<rparr>]"
    by code_simp
  have a4: "delLines ''old'' = [\<lparr>left = Some ''old'', right = None, type = Del\<rparr>]"
    by code_simp
  from getFileDiff_untracked
    [of "posixFs untrackedFiles" "''/repo''" "''new.txt''" "scripted []" start ?err "()",
      OF in1 d1 u] st1 rf1 a1
  have c1: "fst (getFileDiff (scripted []) (posixFs untrackedFiles) ''/repo'' ''new.txt'' start) =
     Inr \<lparr>lines = [\<lparr>left = None, right = Some ''a'', type = Add\<rparr>,
                   \<lparr>left = None, right = Some ''b'', type = Add\<rparr>],
          isBinary = None\<rparr>"
    by simp
  from getFileDiff_untracked
    [of "posixFs []" "''/repo''" "''gone.txt''" "scripted goneTable" start ?err "()",
      OF in2 d2 u] st2 s2 a2
  have c2: "fst (getFileDiff (scripted goneTable) (posixFs []) ''/repo'' ''gone.txt'' start) =
     Inr \<lparr>lines = [\<lparr>left = Some ''x'', right = None, type = Del\<rparr>,
                   \<lparr>left = Some ''y'', right = None, type = Del\<rparr>],
          isBinary = None\<rparr>"
    by simp
  from getFileDiff_untracked
    [of "posixFs []" "''/repo''" "''gone.txt''" "scripted []" start ?err "()",
      OF in2 d3 u] st2 s3
  have c3: "fst (getFileDiff (scripted []) (posixFs []) ''/repo'' ''gone.txt'' start) =
     Inr \<lparr>lines = [], isBinary = None\<rparr>"
    by simp
  from getFileDiff_untracked
    [of "posixFs bigFiles" "''/repo''" "''big.txt''" "scripted bigTable" start ?err "()",
      OF in4 d4 u] st4 s4 a4
  have c4: "fst (getFileDiff (scripted bigTable) (posixFs bigFiles) ''/repo'' ''big.txt'' start) =
     Inr \<lparr>lines = [\<lparr>left = Some ''old'', right = None, type = Del\<rparr>], isBinary = None\<rparr>"
    by simp
  from in1 in2 in4 c1 c2 c3 c4 show ?thesis by blast
qed

text \<open>
  Claim C6 as the specification words it promises add lines for every readable untracked
  file.  The file \<open>/repo/big.txt\<close> is regular, untracked, 524289 bytes long and readable,
  and its content splits into a non-empty sequence of add lines; with no version in HEAD
  \<open>getFileDiff\<close> returns the empty sequence for it.
\<close>

theorem getFileDiff_big_counterexample:
  "\<not> outsideWorktree (posixFs bigFiles) ''/repo'' ''big.txt'' \<and>
   stat (posixFs bigFiles) (join (posixFs bigFiles) [''/repo'', ''big.txt'']) () =
     Some (True, 524289) \<and>
   readFile (posixFs bigFiles) (join (posixFs bigFiles) [''/repo'', ''big.txt'']) () =
     Some bigContent \<and>
   addLines bigContent \<noteq> [] \<and>
   fst (getFileDiff (scripted []) (posixFs bigFiles) ''/repo'' ''big.txt'' start) =
     Inr \<lparr>lines = [], isBinary = None\<rparr>"
proof -
  let ?err = "Inl (ExecError ''Command failed'' (Some [])) :: js_error + string"
  let ?s0 = "\<lparr>world = (), issued = issued start @
        [[''git'', ''diff'', ''--no-color'', ''--unified=2000'', ''HEAD'', ''--'', ''big.txt'']]\<rparr>"
  have inside: "\<not> outsideWorktree (posixFs bigFiles) ''/repo'' ''big.txt''"
    by (simp add: outsideWorktree_def posixFs_def posix_big)
  have st: "stat (posixFs bigFiles) (join (posixFs bigFiles) [''/repo'', ''big.txt'']) () =
      Some (True, 524289)"
    by (simp add: posixFs_def posix_big bigFiles_def length_bigContent)
  have rf: "readFile (posixFs bigFiles) (join (posixFs bigFiles) [''/repo'', ''big.txt'']) () =
      Some bigContent"
    by (simp add: posixFs_def posix_big bigFiles_def)
  have ne: "addLines bigContent \<noteq> []"
    by (simp add: addLines_def splitStr_def newline_def splitFrom_nonempty)
  have d: "scripted [] [''git'', ''diff'', ''--no-color'', ''--unified=2000'', ''HEAD'', ''--'', ''big.txt'']
      (world start) = (?err, ())"
    by (simp add: scripted_def)
  have u: "case ?err of Inl e \<Rightarrow> True | Inr stdout \<Rightarrow> parseDiffLines stdout = ([], False)"
    by simp
  have rd: "readFileTextCapped (posixFs bigFiles) (join (posixFs bigFiles) [''/repo'', ''big.txt''])
      MAX_UNTRACKED_DIFF_BYTES ?s0 = (Inr None, ?s0)"
    using st by (simp add: readFileTextCapped_def MAX_UNTRACKED_DIFF_BYTES_def)
  have sh: "scripted [] [''git'', ''show'', ''HEAD:'' @ ''big.txt''] () = (?err, ())"
    by (simp add: scripted_def)
  from getFileDiff_fallback
    [of "posixFs bigFiles" "''/repo''" "''big.txt''" "scripted []" start ?err "()" None ?s0,
      OF inside d u rd] sh
  have run: "fst (getFileDiff (scripted []) (posixFs bigFiles) ''/repo'' ''big.txt'' start) =
     Inr \<lparr>lines = [], isBinary = None\<rparr>"
    by simp
  from inside st rf ne run show ?thesis by blast
qed

text \<open>
  Claim C7.  When the requested file path, resolved against the worktree root, is neither
  the resolved root itself nor below it (it does not start with the root followed by the
  path separator), \<open>getFileDiff\<close> and \<open>getCommitFileDiff\<close> throw
  \<open>File path is outside the worktree\<close> and the state is left exactly as it was: no
  command has been issued.
\<close>

theorem path_escape_rejected:
  "resolve fs [taskPath, filePath] \<noteq> resolve fs [taskPath] \<Longrightarrow>
   \<not> prefix (resolve fs [taskPath] @ sep fs) (resolve fs [taskPath, filePath]) \<Longrightarrow>
   getFileDiff run fs taskPath filePath s =
     (Inl (Error ''File path is outside the worktree''), s) \<and>
   getCommitFileDiff run fs taskPath commitHash filePath s =
     (Inl (Error ''File path is outside the worktree''), s)"
  by (simp add: getFileDiff_def getCommitFileDiff_def outsideWorktree_def throwIO_def)

text \<open>The path \<open>../etc/passwd\<close> asked for under \<open>/repo\<close>.\<close>

theorem path_escape_rejected_witness:
  "resolve (posixFs []) [''/repo'', ''../etc/passwd''] \<noteq> resolve (posixFs []) [''/repo''] \<and>
   \<not> prefix (resolve (posixFs []) [''/repo''] @ sep (posixFs []))
       (resolve (posixFs []) [''/repo'', ''../etc/passwd'']) \<and>
   resolve (posixFs []) [''/repo'', ''../etc/passwd''] = ''/etc/passwd'' \<and>
   getFileDiff (scripted []) (posixFs []) ''/repo'' ''../etc/passwd'' start =
     (Inl (Error ''File path is outside the worktree''), start) \<and>
   getCommitFileDiff (scripted []) (posixFs []) ''/repo'' ''c1'' ''../etc/passwd'' start =
     (Inl (Error ''File path is outside the worktree''), start)"
proof -
  have r: "resolve (posixFs []) [''/repo'', ''../etc/passwd''] = ''/etc/passwd''"
    by code_simp
  have t: "resolve (posixFs []) [''/repo''] = ''/repo''"
    by code_simp
  have sp: "sep (posixFs []) = ''/''"
    by (simp add: posixFs_def)
  have ne: "resolve (posixFs []) [''/repo'', ''../etc/passwd''] \<noteq> resolve (posixFs []) [''/repo'']"
    by (simp add: r t)
  have np: "\<not> prefix (resolve (posixFs []) [''/repo''] @ sep (posixFs []))
       (resolve (posixFs []) [''/repo'', ''../etc/passwd''])"
    by (simp add: r t sp)
  from path_escape_rejected [OF ne np] r ne np show ?thesis by blast
qed

section \<open>Ahead and behind when no remote can be compared with\<close>

lemma computeAheadCount_all_fail:
  assumes "aheadOfUpstream run s = (Inl e1, s1)"
    and "aheadOfOriginBranch run s1 = (Inl e2, s2)"
    and "aheadOfOriginHead run s2 = (Inl e3, s3)"
  shows "computeAheadCount run s = (Inr 0, s3)"
  using assms by (simp add: computeAheadCount_def catchIO_def returnIO_def)

lemma aheadBehind_all_fail:
  assumes "statusFromUpstream GIT run s = (Inl e1, s1)"
    and "statusFromOriginBranch GIT run br s1 = (Inl e2, s2)"
    and "run [GIT, ''status'', ''-sb''] (world s2) = (r3, w3)"
    and "case r3 of
           Inl e \<Rightarrow> True
         | Inr out \<Rightarrow>
             matchCount ''ahead'' (hd (splitStr out newline)) = None \<and>
             matchCount ''behind'' (hd (splitStr out newline)) = None"
  shows "aheadBehind GIT run br s =
           (Inr (0, 0), \<lparr>world = w3, issued = issued s2 @ [[GIT, ''status'', ''-sb'']]\<rparr>)"
  using assms
  by (cases r3)
     (simp_all add: aheadBehind_def statusFromShortStatus_def catchIO_def bindIO_def
        returnIO_def execFileAsync_def Let_def)

lemma getLog_ahead_zero:
  assumes c: "computeAheadCount run s = (Inr 0, s3)"
  shows "(\<forall>res s'. getLog run maxCount skip None s = (Inr res, s') \<longrightarrow>
            aheadCount res = 0 \<and> (0 \<le> skip \<longrightarrow> list_all isPushed (commits res))) \<and>
         (\<forall>e s'. getLog run maxCount skip None s = (Inl e, s') \<longrightarrow>
            fst (run [''git'', ''log'', ''--max-count='' @ showInt maxCount,
                      ''--skip='' @ showInt skip, ''--pretty=format:'' @ logFormat, ''--'']
                   (world s3)) = Inl e)"
proof -
  define logCmd where "logCmd = [''git'', ''log'', ''--max-count='' @ showInt maxCount,
                      ''--skip='' @ showInt skip, ''--pretty=format:'' @ logFormat, ''--'']"
  obtain r w where rl: "run logCmd (world s3) = (r, w)" by (cases "run logCmd (world s3)")
  have g: "getLog run maxCount skip None s =
     (case r of
        Inl e \<Rightarrow> (Inl e, \<lparr>world = w, issued = issued s3 @ [logCmd]\<rparr>)
      | Inr stdout \<Rightarrow>
          (Inr (if trim stdout = [] then \<lparr>commits = [], aheadCount = 0\<rparr>
                else \<lparr>commits =
                        map (\<lambda>(index, entry). parseEntry skip 0 index entry)
                          (enumerate 0 (filter (\<lambda>entry. trim entry \<noteq> []) (splitStr stdout RECORD_SEP))),
                      aheadCount = 0\<rparr>),
           \<lparr>world = w, issued = issued s3 @ [logCmd]\<rparr>))"
    using rl [unfolded logCmd_def]
    by (cases r) (simp_all add: getLog_def bindIO_def c execFileAsync_def returnIO_def logCmd_def)
  have pushed: "0 \<le> skip \<Longrightarrow>
      list_all isPushed (map (\<lambda>(index, entry). parseEntry skip 0 index entry) (enumerate 0 xs))" for xs
    by (auto simp: list_all_iff parseEntry_def Let_def in_set_enumerate_eq)
  show ?thesis
    using rl pushed unfolding g logCmd_def [symmetric]
    by (cases r) (auto split: if_splits)
qed


lemma handler_all_fail:
  assumes path: "taskPath \<noteq> []"
    and loc: "resolveRemoteProject env taskPath (world t) = None"
    and ex: "existsSync env taskPath (world t)"
    and repo: "execFileAsync run [GIT, ''rev-parse'', ''--is-inside-work-tree''] t = (Inr o1, ta)"
    and br: "execFileAsync run [GIT, ''branch'', ''--show-current''] ta = (Inr o2, tb)"
    and db: "resolveDefaultBranch GIT run tb = (Inr db, tc)"
    and f1: "statusFromUpstream GIT run tc = (Inl e4, t1)"
    and f2: "statusFromOriginBranch GIT run (trim o2) t1 = (Inl e5, t2)"
    and f3: "run [GIT, ''status'', ''-sb''] (world t2) = (r3, w3)"
    and f4: "case r3 of
           Inl e \<Rightarrow> True
         | Inr out \<Rightarrow>
             matchCount ''ahead'' (hd (splitStr out newline)) = None \<and>
             matchCount ''behind'' (hd (splitStr out newline)) = None"
  shows "\<exists>status. fst (getBranchStatusHandler GIT run env taskPath t) = Inr status \<and>
           ahead status = 0 \<and> behind status = 0 \<and> branch status = trim o2"
proof -
  define tail :: "(int, 'a) io" where
    "tail = (if trim o2 \<noteq> db then
          catchIO
            (bindIO (execFileAsync run
                       [GIT, ''rev-list'', ''--count'', ''origin/'' @ db @ ''..HEAD''])
               (\<lambda>countOut.
             returnIO (countOrZero countOut)))
            (\<lambda>_. returnIO 0)
        else returnIO 0)"
  define t3 where "t3 = \<lparr>world = w3, issued = issued t2 @ [[GIT, ''status'', ''-sb'']]\<rparr>"
  have "\<exists>d. fst (tail t3) = Inr d"
    unfolding tail_def by (auto intro!: catchIO_returns simp: returnIO_def)
  then obtain d t4 where tl: "tail t3 = (Inr d, t4)"
    by (metis prod.collapse)
  note ab = aheadBehind_all_fail [of GIT run tc e4 t1 "trim o2" e5 t2 r3 w3, OF f1 f2 f3 f4,
    folded t3_def]
  have "localBranchStatus GIT run ta =
      bindIO (execFileAsync run [GIT, ''branch'', ''--show-current'']) (\<lambda>currentBranchOut.
      bindIO (resolveDefaultBranch GIT run) (\<lambda>db.
      bindIO (aheadBehind GIT run (trim currentBranchOut)) (\<lambda>(a, b).
      bindIO
       (if trim currentBranchOut \<noteq> db then
          catchIO
            (bindIO (execFileAsync run
                       [GIT, ''rev-list'', ''--count'', ''origin/'' @ db @ ''..HEAD''])
               (\<lambda>countOut.
             returnIO (countOrZero countOut)))
            (\<lambda>_. returnIO 0)
        else returnIO 0) (\<lambda>d.
      returnIO
       \<lparr>branch = trim currentBranchOut, defaultBranch = db, ahead = a, behind = b,
        aheadOfDefault = d\<rparr>)))) ta"
    unfolding localBranchStatus_def ..
  also have "\<dots> = bindIO tail (\<lambda>d.
      returnIO
       \<lparr>branch = trim o2, defaultBranch = db, ahead = 0, behind = 0,
        aheadOfDefault = d\<rparr>) t3"
    unfolding tail_def by (simp add: bindIO_def br db ab)
  also have "\<dots> = (Inr \<lparr>branch = trim o2, defaultBranch = db, ahead = 0, behind = 0,
        aheadOfDefault = d\<rparr>, t4)"
    by (simp add: bindIO_def tl returnIO_def)
  finally have "getBranchStatusHandler GIT run env taskPath t =
      (Inr \<lparr>branch = trim o2, defaultBranch = db, ahead = 0, behind = 0,
        aheadOfDefault = d\<rparr>, t4)"
    by (simp add: getBranchStatusHandler_def path loc ex repo)
  then show ?thesis by simp
qed

lemma collapse_fst: "fst p = a \<Longrightarrow> p = (a, snd p)"
  by (cases p) simp

text \<open>
  Claim C5.  In \<open>getLog\<close>: when the comparison with the upstream, the comparison with
  \<open>origin/<branch>\<close> and the comparison with \<open>origin/HEAD\<close> all fail, the ahead count is
  0; \<open>getLog\<close> then returns that count, every commit of a page with \<open>skip \<ge> 0\<close> is flagged
  pushed, and the only error \<open>getLog\<close> can still give is that of \<open>git log\<close> itself.  In
  the \<open>git:get-branch-status\<close> handler, for a local repository whose current branch can be
  read: when the comparison with the upstream and with \<open>origin/<branch>\<close> fail and
  \<open>git status -sb\<close> fails too or prints no ahead/behind figure in its first line, the
  handler answers with success, \<open>ahead = 0\<close> and \<open>behind = 0\<close>.
\<close>

theorem unavailable_remote_counts_zero:
  "(aheadOfUpstream run s = (Inl e1, s1) \<and>
    aheadOfOriginBranch run s1 = (Inl e2, s2) \<and>
    aheadOfOriginHead run s2 = (Inl e3, s3) \<longrightarrow>
      computeAheadCount run s = (Inr 0, s3) \<and>
      (\<forall>res s'. getLog run maxCount skip None s = (Inr res, s') \<longrightarrow>
         aheadCount res = 0 \<and> (0 \<le> skip \<longrightarrow> list_all isPushed (commits res))) \<and>
      (\<forall>e s'. getLog run maxCount skip None s = (Inl e, s') \<longrightarrow>
         fst (run [''git'', ''log'', ''--max-count='' @ showInt maxCount,
                   ''--skip='' @ showInt skip, ''--pretty=format:'' @ logFormat, ''--'']
                (world s3)) = Inl e)) \<and>
   (taskPath \<noteq> [] \<and>
    resolveRemoteProject env taskPath (world t) = None \<and>
    existsSync env taskPath (world t) \<and>
    execFileAsync run [GIT, ''rev-parse'', ''--is-inside-work-tree''] t = (Inr o1, ta) \<and>
    execFileAsync run [GIT, ''branch'', ''--show-current''] ta = (Inr o2, tb) \<and>
    resolveDefaultBranch GIT run tb = (Inr db, tc) \<and>
    statusFromUpstream GIT run tc = (Inl e4, t1) \<and>
    statusFromOriginBranch GIT run (trim o2) t1 = (Inl e5, t2) \<and>
    run [GIT, ''status'', ''-sb''] (world t2) = (r3, w3) \<and>
    (case r3 of
       Inl e \<Rightarrow> True
     | Inr out \<Rightarrow>
         matchCount ''ahead'' (hd (splitStr out newline)) = None \<and>
         matchCount ''behind'' (hd (splitStr out newline)) = None) \<longrightarrow>
      (\<exists>status. fst (getBranchStatusHandler GIT run env taskPath t) = Inr status \<and>
         ahead status = 0 \<and> behind status = 0 \<and> branch status = trim o2))"
proof (intro conjI impI)
  assume a: "aheadOfUpstream run s = (Inl e1, s1) \<and>
    aheadOfOriginBranch run s1 = (Inl e2, s2) \<and>
    aheadOfOriginHead run s2 = (Inl e3, s3)"
  then show c: "computeAheadCount run s = (Inr 0, s3)"
    by (simp add: computeAheadCount_all_fail [of run s e1 s1 e2 s2 e3 s3])
  from getLog_ahead_zero [of run s s3 maxCount skip, OF c]
  show "\<forall>res s'. getLog run maxCount skip None s = (Inr res, s') \<longrightarrow>
         aheadCount res = 0 \<and> (0 \<le> skip \<longrightarrow> list_all isPushed (commits res))"
    and "\<forall>e s'. getLog run maxCount skip None s = (Inl e, s') \<longrightarrow>
         fst (run [''git'', ''log'', ''--max-count='' @ showInt maxCount,
                   ''--skip='' @ showInt skip, ''--pretty=format:'' @ logFormat, ''--'']
                (world s3)) = Inl e"
    by blast+
next
  assume "taskPath \<noteq> [] \<and>
    resolveRemoteProject env taskPath (world t) = None \<and>
    existsSync env taskPath (world t) \<and>
    execFileAsync run [GIT, ''rev-parse'', ''--is-inside-work-tree''] t = (Inr o1, ta) \<and>
    execFileAsync run [GIT, ''branch'', ''--show-current''] ta = (Inr o2, tb) \<and>
    resolveDefaultBranch GIT run tb = (Inr db, tc) \<and>
    statusFromUpstream GIT run tc = (Inl e4, t1) \<and>
    statusFromOriginBranch GIT run (trim o2) t1 = (Inl e5, t2) \<and>
    run [GIT, ''status'', ''-sb''] (world t2) = (r3, w3) \<and>
    (case r3 of
       Inl e \<Rightarrow> True
     | Inr out \<Rightarrow>
         matchCount ''ahead'' (hd (splitStr out newline)) = None \<and>
         matchCount ''behind'' (hd (splitStr out newline)) = None)"
  then show "\<exists>status. fst (getBranchStatusHandler GIT run env taskPath t) = Inr status \<and>
         ahead status = 0 \<and> behind status = 0 \<and> branch status = trim o2"
    using handler_all_fail [of taskPath env t run GIT o1 ta o2 tb db tc e4 t1 e5 t2 r3 w3]
    by blast
qed

text \<open>
  A repository without any remote: the log of two commits shows both as pushed, and the
  branch status of \<open>topic\<close> is 0 ahead, 0 behind.
\<close>

theorem unavailable_remote_counts_zero_witness:
  "fst (aheadOfUpstream (scripted pagedLogTable) start) = Inl scriptedFailure \<and>
   fst (getLog (scripted pagedLogTable) 50 0 None start) = Inr allPushedLog \<and>
   aheadCount allPushedLog = 0 \<and>
   list_all isPushed (commits allPushedLog) \<and>
   resolveRemoteProject localEnv ''/repo'' (world start) = None \<and>
   scripted noRemoteTable [''git'', ''status'', ''-sb''] () = (Inr (''## topic'' @ newline), ()) \<and>
   matchCount ''ahead'' (hd (splitStr (''## topic'' @ newline) newline)) = None \<and>
   (\<exists>status.
      fst (getBranchStatusHandler ''git'' (scripted noRemoteTable) localEnv ''/repo'' start) =
        Inr status \<and>
      ahead status = 0 \<and> behind status = 0 \<and> branch status = ''topic'')"
proof -
  let ?R = "scripted pagedLogTable"
  let ?s1 = "snd (aheadOfUpstream ?R start)"
  let ?s2 = "snd (aheadOfOriginBranch ?R ?s1)"
  let ?s3 = "snd (aheadOfOriginHead ?R ?s2)"
  have u0: "fst (aheadOfUpstream ?R start) = Inl scriptedFailure"
    by code_simp
  have u1: "aheadOfUpstream ?R start = (Inl scriptedFailure, ?s1)"
    by (rule collapse_fst) (rule u0)
  have u2: "aheadOfOriginBranch ?R ?s1 = (Inl scriptedFailure, ?s2)"
    by (rule collapse_fst) code_simp
  have u3: "aheadOfOriginHead ?R ?s2 = (Inl scriptedFailure, ?s3)"
    by (rule collapse_fst) code_simp
  have g0: "fst (getLog ?R 50 0 None start) = Inr allPushedLog"
    by code_simp
  have g: "getLog ?R 50 0 None start = (Inr allPushedLog, snd (getLog ?R 50 0 None start))"
    by (rule collapse_fst) (rule g0)
  from unavailable_remote_counts_zero
    [where run = ?R and s = start and ?s1.0 = ?s1 and ?s2.0 = ?s2 and ?s3.0 = ?s3
       and ?e1.0 = scriptedFailure and ?e2.0 = scriptedFailure and ?e3.0 = scriptedFailure
       and maxCount = 50 and skip = 0, THEN conjunct1] u1 u2 u3 g
  have part1: "aheadCount allPushedLog = 0 \<and> list_all isPushed (commits allPushedLog)"
    by blast
  let ?N = "scripted noRemoteTable"
  let ?ta = "snd (execFileAsync ?N [''git'', ''rev-parse'', ''--is-inside-work-tree''] start)"
  let ?tb = "snd (execFileAsync ?N [''git'', ''branch'', ''--show-current''] ?ta)"
  let ?tc = "snd (resolveDefaultBranch ''git'' ?N ?tb)"
  let ?t1 = "snd (statusFromUpstream ''git'' ?N ?tc)"
  let ?t2 = "snd (statusFromOriginBranch ''git'' ?N (trim (''topic'' @ newline)) ?t1)"
  have h1: "''/repo'' \<noteq> []" by simp
  have h2: "resolveRemoteProject localEnv ''/repo'' (world start) = None"
    by (simp add: localEnv_def)
  have h3: "existsSync localEnv ''/repo'' (world start)"
    by (simp add: localEnv_def)
  have h4: "execFileAsync ?N [''git'', ''rev-parse'', ''--is-inside-work-tree''] start =
      (Inr (''true'' @ newline), ?ta)"
    by (rule collapse_fst) code_simp
  have h5: "execFileAsync ?N [''git'', ''branch'', ''--show-current''] ?ta =
      (Inr (''topic'' @ newline), ?tb)"
    by (rule collapse_fst) code_simp
  have h6: "resolveDefaultBranch ''git'' ?N ?tb = (Inr ''main'', ?tc)"
    by (rule collapse_fst) code_simp
  have h7: "statusFromUpstream ''git'' ?N ?tc = (Inl scriptedFailure, ?t1)"
    by (rule collapse_fst) code_simp
  have h8: "statusFromOriginBranch ''git'' ?N (trim (''topic'' @ newline)) ?t1 =
      (Inl scriptedFailure, ?t2)"
    by (rule collapse_fst) code_simp
  have h9: "?N [''git'', ''status'', ''-sb''] (world ?t2) = (Inr (''## topic'' @ newline), ())"
    by (simp add: scripted_def noRemoteTable_def)
  have m1: "matchCount ''ahead'' (hd (splitStr (''## topic'' @ newline) newline)) = None"
    and m2: "matchCount ''behind'' (hd (splitStr (''## topic'' @ newline) newline)) = None"
    by code_simp+
  have tr: "trim (''topic'' @ newline) = ''topic''"
    by code_simp
  from unavailable_remote_counts_zero
    [where run = ?N and taskPath = "''/repo''" and env = localEnv and t = start
       and GIT = "''git''" and ?o1.0 = "''true'' @ newline" and ta = ?ta
       and ?o2.0 = "''topic'' @ newline" and tb = ?tb and db = "''main''" and tc = ?tc
       and ?e4.0 = scriptedFailure and ?t1.0 = ?t1 and ?e5.0 = scriptedFailure and ?t2.0 = ?t2
       and ?r3.0 = "Inr (''## topic'' @ newline)" and ?w3.0 = "()", THEN conjunct2]
    h1 h2 h3 h4 h5 h6 h7 h8 h9 m1 m2
  have part2: "\<exists>status.
      fst (getBranchStatusHandler ''git'' ?N localEnv ''/repo'' start) = Inr status \<and>
      ahead status = 0 \<and> behind status = 0 \<and> branch status = trim (''topic'' @ newline)"
    by simp
  have h9': "?N [''git'', ''status'', ''-sb''] () = (Inr (''## topic'' @ newline), ())"
    by (simp add: scripted_def noRemoteTable_def)
  from u0 g0 part1 h2 h9' m1 part2 [unfolded tr] show ?thesis
    by blast
qed

section \<open>Renaming a branch that was never pushed\<close>






section \<open>Watch subscriptions are counted per path\<close>

lemma ensure_local_existing:
  "supportsRecursiveWatch env \<Longrightarrow> taskPath \<noteq> [] \<Longrightarrow> workspaceExists env taskPath \<Longrightarrow>
   gitStatusWatchers st taskPath = Some e \<Longrightarrow>
   ensureGitStatusWatcher env taskPath uuid st =
     (Inr uuid,
      st\<lparr>gitStatusWatchers := (gitStatusWatchers st)
            (taskPath \<mapsto> e\<lparr>watchIds := insert uuid (watchIds e)\<rparr>)\<rparr>)"
  by (simp add: ensureGitStatusWatcher_def)

lemma ensure_remote_existing:
  "remoteStatusPollers st taskPath = Some p \<Longrightarrow>
   ensureRemoteStatusPoller taskPath conn uuid st =
     (Inr uuid,
      st\<lparr>remoteStatusPollers := (remoteStatusPollers st)
            (taskPath \<mapsto> p\<lparr>watchIds := insert uuid (watchIds p)\<rparr>)\<rparr>)"
  by (simp add: ensureRemoteStatusPoller_def)

lemma release_local:
  "gitStatusWatchers st taskPath = Some e \<Longrightarrow> w \<noteq> [] \<Longrightarrow>
   releaseGitStatusWatcher taskPath (Some w) st =
     (if watchIds e - {w} = {}
      then st\<lparr>pendingTimers := pendingTimers st - set_option (debounceTimer e),
              openWatchers := openWatchers st - {watcher e},
              gitStatusWatchers := (gitStatusWatchers st)(taskPath := None)\<rparr>
      else st\<lparr>gitStatusWatchers := (gitStatusWatchers st)
                (taskPath \<mapsto> e\<lparr>watchIds := watchIds e - {w}\<rparr>)\<rparr>)"
  by (simp add: releaseGitStatusWatcher_def truthy_def Let_def)

lemma release_remote:
  "remoteStatusPollers st taskPath = Some p \<Longrightarrow> w \<noteq> [] \<Longrightarrow>
   releaseRemoteStatusPoller taskPath (Some w) st =
     (if watchIds p - {w} = {}
      then st\<lparr>activeIntervals := activeIntervals st - {intervalId p},
              remoteStatusPollers := (remoteStatusPollers st)(taskPath := None)\<rparr>
      else st\<lparr>remoteStatusPollers := (remoteStatusPollers st)
                (taskPath \<mapsto> p\<lparr>watchIds := watchIds p - {w}\<rparr>)\<rparr>)"
  by (simp add: releaseRemoteStatusPoller_def truthy_def Let_def)

lemma scenario_local:
  assumes "supportsRecursiveWatch env" "taskPath \<noteq> []" "workspaceExists env taskPath"
    "fsWatchError env taskPath = None" "gitStatusWatchers st taskPath = None"
    "a \<noteq> b" "a \<noteq> []" "b \<noteq> []"
  shows "let s1 = snd (watchStatus env None taskPath a st);
             s2 = snd (watchStatus env None taskPath b s1);
             s3 = unwatchStatus None taskPath (Some a) s2;
             s4 = unwatchStatus None taskPath (Some b) s3
         in fst (watchStatus env None taskPath a st) = Inr a \<and>
            fst (watchStatus env None taskPath b s1) = Inr b \<and>
            gitStatusWatchers s2 taskPath =
              Some \<lparr>watchIds = {a, b}, watcher = nextHandle st, debounceTimer = None\<rparr> \<and>
            openWatchers s2 = insert (nextHandle st) (openWatchers st) \<and>
            gitStatusWatchers s3 taskPath =
              Some \<lparr>watchIds = {b}, watcher = nextHandle st, debounceTimer = None\<rparr> \<and>
            nextHandle st \<in> openWatchers s3 \<and>
            gitStatusWatchers s4 taskPath = None \<and>
            nextHandle st \<notin> openWatchers s4"
  using assms
  by (auto simp: Let_def watchStatus_def unwatchStatus_def ensureGitStatusWatcher_def
        releaseGitStatusWatcher_def truthy_def)

lemma scenario_remote:
  assumes "remoteStatusPollers st taskPath = None" "a \<noteq> b" "a \<noteq> []" "b \<noteq> []"
  shows "let s1 = snd (watchStatus env (Some conn) taskPath a st);
             s2 = snd (watchStatus env (Some conn) taskPath b s1);
             s3 = unwatchStatus (Some conn) taskPath (Some a) s2;
             s4 = unwatchStatus (Some conn) taskPath (Some b) s3
         in fst (watchStatus env (Some conn) taskPath a st) = Inr a \<and>
            fst (watchStatus env (Some conn) taskPath b s1) = Inr b \<and>
            remoteStatusPollers s2 taskPath =
              Some \<lparr>watchIds = {a, b}, intervalId = nextHandle st, lastStatusHash = [],
                    connectionId = conn\<rparr> \<and>
            activeIntervals s2 = insert (nextHandle st) (activeIntervals st) \<and>
            remoteStatusPollers s3 taskPath =
              Some \<lparr>watchIds = {b}, intervalId = nextHandle st, lastStatusHash = [],
                    connectionId = conn\<rparr> \<and>
            nextHandle st \<in> activeIntervals s3 \<and>
            remoteStatusPollers s4 taskPath = None \<and>
            nextHandle st \<notin> activeIntervals s4"
  using assms
  by (auto simp: Let_def watchStatus_def unwatchStatus_def ensureRemoteStatusPoller_def
        releaseRemoteStatusPoller_def truthy_def)

text \<open>
  Claim C8.  For the local watchers and the remote pollers alike: a watch on a path that is
  already in the registry keeps the entry (the same watcher or interval) and only adds the
  new watch id; an unwatch with a watch id removes that id and nothing else, and the entry
  is taken out of the registry, its watcher closed or its interval cleared, exactly when no
  id is left.  So, starting from an unwatched path, after two watches with different ids and
  one unwatch the path is still registered and its watcher (interval) still active, and
  after the second unwatch it is gone.
\<close>

theorem watch_reference_counting:
  "(supportsRecursiveWatch env \<and> taskPath \<noteq> [] \<and> workspaceExists env taskPath \<and>
    gitStatusWatchers st taskPath = Some e \<longrightarrow>
      ensureGitStatusWatcher env taskPath uuid st =
        (Inr uuid,
         st\<lparr>gitStatusWatchers := (gitStatusWatchers st)
               (taskPath \<mapsto> e\<lparr>watchIds := insert uuid (watchIds e)\<rparr>)\<rparr>)) \<and>
   (remoteStatusPollers st taskPath = Some p \<longrightarrow>
      ensureRemoteStatusPoller taskPath conn uuid st =
        (Inr uuid,
         st\<lparr>remoteStatusPollers := (remoteStatusPollers st)
               (taskPath \<mapsto> p\<lparr>watchIds := insert uuid (watchIds p)\<rparr>)\<rparr>)) \<and>
   (gitStatusWatchers st taskPath = Some e \<and> w \<noteq> [] \<longrightarrow>
      releaseGitStatusWatcher taskPath (Some w) st =
        (if watchIds e - {w} = {}
         then st\<lparr>pendingTimers := pendingTimers st - set_option (debounceTimer e),
                 openWatchers := openWatchers st - {watcher e},
                 gitStatusWatchers := (gitStatusWatchers st)(taskPath := None)\<rparr>
         else st\<lparr>gitStatusWatchers := (gitStatusWatchers st)
                   (taskPath \<mapsto> e\<lparr>watchIds := watchIds e - {w}\<rparr>)\<rparr>)) \<and>
   (remoteStatusPollers st taskPath = Some p \<and> w \<noteq> [] \<longrightarrow>
      releaseRemoteStatusPoller taskPath (Some w) st =
        (if watchIds p - {w} = {}
         then st\<lparr>activeIntervals := activeIntervals st - {intervalId p},
                 remoteStatusPollers := (remoteStatusPollers st)(taskPath := None)\<rparr>
         else st\<lparr>remoteStatusPollers := (remoteStatusPollers st)
                   (taskPath \<mapsto> p\<lparr>watchIds := watchIds p - {w}\<rparr>)\<rparr>)) \<and>
   (supportsRecursiveWatch env \<and> taskPath \<noteq> [] \<and> workspaceExists env taskPath \<and>
    fsWatchError env taskPath = None \<and> gitStatusWatchers st taskPath = None \<and>
    a \<noteq> b \<and> a \<noteq> [] \<and> b \<noteq> [] \<longrightarrow>
      (let s1 = snd (watchStatus env None taskPath a st);
           s2 = snd (watchStatus env None taskPath b s1);
           s3 = unwatchStatus None taskPath (Some a) s2;
           s4 = unwatchStatus None taskPath (Some b) s3
       in fst (watchStatus env None taskPath a st) = Inr a \<and>
          fst (watchStatus env None taskPath b s1) = Inr b \<and>
          gitStatusWatchers s2 taskPath =
            Some \<lparr>watchIds = {a, b}, watcher = nextHandle st, debounceTimer = None\<rparr> \<and>
          openWatchers s2 = insert (nextHandle st) (openWatchers st) \<and>
          gitStatusWatchers s3 taskPath =
            Some \<lparr>watchIds = {b}, watcher = nextHandle st, debounceTimer = None\<rparr> \<and>
          nextHandle st \<in> openWatchers s3 \<and>
          gitStatusWatchers s4 taskPath = None \<and>
          nextHandle st \<notin> openWatchers s4)) \<and>
   (remoteStatusPollers st taskPath = None \<and> a \<noteq> b \<and> a \<noteq> [] \<and> b \<noteq> [] \<longrightarrow>
      (let s1 = snd (watchStatus env (Some conn) taskPath a st);
           s2 = snd (watchStatus env (Some conn) taskPath b s1);
           s3 = unwatchStatus (Some conn) taskPath (Some a) s2;
           s4 = unwatchStatus (Some conn) taskPath (Some b) s3
       in fst (watchStatus env (Some conn) taskPath a st) = Inr a \<and>
          fst (watchStatus env (Some conn) taskPath b s1) = Inr b \<and>
          remoteStatusPollers s2 taskPath =
            Some \<lparr>watchIds = {a, b}, intervalId = nextHandle st, lastStatusHash = [],
                  connectionId = conn\<rparr> \<and>
          activeIntervals s2 = insert (nextHandle st) (activeIntervals st) \<and>
          remoteStatusPollers s3 taskPath =
            Some \<lparr>watchIds = {b}, intervalId = nextHandle st, lastStatusHash = [],
                  connectionId = conn\<rparr> \<and>
          nextHandle st \<in> activeIntervals s3 \<and>
          remoteStatusPollers s4 taskPath = None \<and>
          nextHandle st \<notin> activeIntervals s4))"
  using ensure_local_existing [of env taskPath st e uuid]
    ensure_remote_existing [of st taskPath p conn uuid]
    release_local [of st taskPath e w]
    release_remote [of st taskPath p w]
    scenario_local [of env taskPath st a b]
    scenario_remote [of st taskPath a b env conn]
  by blast

text \<open>The paths \<open>/repo\<close> (local) and \<open>/srv/repo\<close> (remote), watched as \<open>id-1\<close> and \<open>id-2\<close>.\<close>

theorem watch_reference_counting_witness:
  "gitStatusWatchers watchedOnce ''/repo'' =
     Some \<lparr>watchIds = {''id-1''}, watcher = 0, debounceTimer = None\<rparr> \<and>
   ensureGitStatusWatcher macEnv ''/repo'' ''id-2'' watchedOnce =
     (Inr ''id-2'',
      watchedOnce\<lparr>gitStatusWatchers := (gitStatusWatchers watchedOnce)
        (''/repo'' \<mapsto> \<lparr>watchIds = {''id-2'', ''id-1''}, watcher = 0, debounceTimer = None\<rparr>)\<rparr>) \<and>
   gitStatusWatchers (releaseGitStatusWatcher ''/repo'' (Some ''id-1'') watchedOnce) ''/repo'' = None \<and>
   remoteStatusPollers polling ''/srv/repo'' =
     Some \<lparr>watchIds = {''id-1''}, intervalId = 0, lastStatusHash = [], connectionId = ''conn-1''\<rparr> \<and>
   fst (ensureRemoteStatusPoller ''/srv/repo'' ''conn-1'' ''id-2'' polling) = Inr ''id-2'' \<and>
   remoteStatusPollers (releaseRemoteStatusPoller ''/srv/repo'' (Some ''id-1'') polling) ''/srv/repo''
     = None \<and>
   (let s1 = snd (watchStatus macEnv None ''/repo'' ''id-1'' initialIpcState);
        s2 = snd (watchStatus macEnv None ''/repo'' ''id-2'' s1);
        s3 = unwatchStatus None ''/repo'' (Some ''id-1'') s2;
        s4 = unwatchStatus None ''/repo'' (Some ''id-2'') s3
    in gitStatusWatchers s3 ''/repo'' =
         Some \<lparr>watchIds = {''id-2''}, watcher = 0, debounceTimer = None\<rparr> \<and>
       0 \<in> openWatchers s3 \<and>
       gitStatusWatchers s4 ''/repo'' = None \<and>
       0 \<notin> openWatchers s4) \<and>
   (let s1 = snd (watchStatus macEnv (Some ''conn-1'') ''/srv/repo'' ''id-1'' initialIpcState);
        s2 = snd (watchStatus macEnv (Some ''conn-1'') ''/srv/repo'' ''id-2'' s1);
        s3 = unwatchStatus (Some ''conn-1'') ''/srv/repo'' (Some ''id-1'') s2;
        s4 = unwatchStatus (Some ''conn-1'') ''/srv/repo'' (Some ''id-2'') s3
    in 0 \<in> activeIntervals s3 \<and>
       remoteStatusPollers s4 ''/srv/repo'' = None \<and>
       0 \<notin> activeIntervals s4)"
proof -
  let ?e = "\<lparr>watchIds = {''id-1''}, watcher = 0, debounceTimer = None\<rparr>"
  let ?p = "\<lparr>watchIds = {''id-1''}, intervalId = 0, lastStatusHash = [], connectionId = ''conn-1''\<rparr>"
  have env: "supportsRecursiveWatch macEnv" "workspaceExists macEnv ''/repo''"
    "fsWatchError macEnv ''/repo'' = None"
    by (simp_all add: macEnv_def)
  have w1: "gitStatusWatchers watchedOnce ''/repo'' = Some ?e"
    by (simp add: watchedOnce_def watchStatus_def ensureGitStatusWatcher_def macEnv_def
          initialIpcState_def)
  have p1: "remoteStatusPollers polling ''/srv/repo'' = Some ?p"
    by (simp add: polling_def ensureRemoteStatusPoller_def initialIpcState_def)
  have i0: "gitStatusWatchers initialIpcState ''/repo'' = None"
    "remoteStatusPollers initialIpcState ''/srv/repo'' = None" "nextHandle initialIpcState = 0"
    by (simp_all add: initialIpcState_def)
  have ids: "''id-1'' \<noteq> ''id-2''" "''id-1'' \<noteq> []" "''id-2'' \<noteq> []" "''/repo'' \<noteq> []"
    by simp_all
  note A = watch_reference_counting
    [where env = macEnv and taskPath = "''/repo''" and st = watchedOnce and e = ?e
       and uuid = "''id-2''" and w = "''id-1''"]
  note B = watch_reference_counting
    [where taskPath = "''/srv/repo''" and st = polling and p = ?p and conn = "''conn-1''"
       and uuid = "''id-2''" and w = "''id-1''"]
  note C = watch_reference_counting
    [where env = macEnv and taskPath = "''/repo''" and st = initialIpcState
       and a = "''id-1''" and b = "''id-2''"]
  note D = watch_reference_counting
    [where env = macEnv and taskPath = "''/srv/repo''" and st = initialIpcState
       and a = "''id-1''" and b = "''id-2''" and conn = "''conn-1''"]
  from A env w1 ids
  have a1: "ensureGitStatusWatcher macEnv ''/repo'' ''id-2'' watchedOnce =
     (Inr ''id-2'',
      watchedOnce\<lparr>gitStatusWatchers := (gitStatusWatchers watchedOnce)
        (''/repo'' \<mapsto> \<lparr>watchIds = {''id-2'', ''id-1''}, watcher = 0, debounceTimer = None\<rparr>)\<rparr>)"
    and a2: "gitStatusWatchers (releaseGitStatusWatcher ''/repo'' (Some ''id-1'') watchedOnce) ''/repo'' = None"
    by simp_all
  from B p1 ids
  have b1: "fst (ensureRemoteStatusPoller ''/srv/repo'' ''conn-1'' ''id-2'' polling) = Inr ''id-2''"
    and b2: "remoteStatusPollers (releaseRemoteStatusPoller ''/srv/repo'' (Some ''id-1'') polling) ''/srv/repo''
     = None"
    by simp_all
  from C env i0 ids
  have c: "let s1 = snd (watchStatus macEnv None ''/repo'' ''id-1'' initialIpcState);
        s2 = snd (watchStatus macEnv None ''/repo'' ''id-2'' s1);
        s3 = unwatchStatus None ''/repo'' (Some ''id-1'') s2;
        s4 = unwatchStatus None ''/repo'' (Some ''id-2'') s3
    in gitStatusWatchers s3 ''/repo'' =
         Some \<lparr>watchIds = {''id-2''}, watcher = 0, debounceTimer = None\<rparr> \<and>
       0 \<in> openWatchers s3 \<and>
       gitStatusWatchers s4 ''/repo'' = None \<and>
       0 \<notin> openWatchers s4"
    by (simp add: Let_def)
  from D i0 ids
  have d: "let s1 = snd (watchStatus macEnv (Some ''conn-1'') ''/srv/repo'' ''id-1'' initialIpcState);
        s2 = snd (watchStatus macEnv (Some ''conn-1'') ''/srv/repo'' ''id-2'' s1);
        s3 = unwatchStatus (Some ''conn-1'') ''/srv/repo'' (Some ''id-1'') s2;
        s4 = unwatchStatus (Some ''conn-1'') ''/srv/repo'' (Some ''id-2'') s3
    in 0 \<in> activeIntervals s3 \<and>
       remoteStatusPollers s4 ''/srv/repo'' = None \<and>
       0 \<notin> activeIntervals s4"
    by (simp add: Let_def)
  from w1 a1 a2 p1 b1 b2 c d show ?thesis by blast
qed

section \<open>The fingerprint of the remote poller\<close>

lemma statusHash_fields:
  "statusHash cs =
     joinWith ''|''
       (map (\<lambda>(p, s, g). p @ '':'' @ s @ '':'' @ (if g then ''true'' else ''false''))
          (map (\<lambda>c. (path c, status c, isStaged c)) cs))"
  by (simp add: statusHash_def comp_def)

text \<open>
  Claim C10.  The fingerprint of a polled status list depends only on the path, the status
  and the staged flag of its entries: two lists that agree on these three fields, entry by
  entry, have the same fingerprint, whatever their addition and deletion counts.  When two
  such lists are polled one after the other, the second poll changes nothing: the state
  stays as the first poll left it and no further notification is broadcast.
\<close>

theorem poll_fingerprint:
  "map (\<lambda>c. (path c, status c, isStaged c)) cs1 =
     map (\<lambda>c. (path c, status c, isStaged c)) cs2 \<Longrightarrow>
   statusHash cs1 = statusHash cs2 \<and>
   pollTick taskPath (Inr cs2) (pollTick taskPath (Inr cs1) st) =
     pollTick taskPath (Inr cs1) st \<and>
   broadcasts (pollTick taskPath (Inr cs2) (pollTick taskPath (Inr cs1) st)) =
     broadcasts (pollTick taskPath (Inr cs1) st)"
proof -
  assume eq: "map (\<lambda>c. (path c, status c, isStaged c)) cs1 =
     map (\<lambda>c. (path c, status c, isStaged c)) cs2"
  have h: "statusHash cs1 = statusHash cs2"
    by (simp only: statusHash_fields eq)
  have "pollTick taskPath (Inr cs2) (pollTick taskPath (Inr cs1) st) =
     pollTick taskPath (Inr cs1) st"
    by (cases "remoteStatusPollers st taskPath") (simp_all add: pollTick_def h [symmetric])
  with h show ?thesis by simp
qed

text \<open>Two polls that differ only in the counts of added and deleted lines.\<close>

theorem poll_fingerprint_witness:
  "map (\<lambda>c. (path c, status c, isStaged c)) polledOnce =
     map (\<lambda>c. (path c, status c, isStaged c)) polledAgain \<and>
   polledOnce \<noteq> polledAgain \<and>
   statusHash polledOnce = ''a.ts:modified:false'' \<and>
   statusHash polledOnce = statusHash polledAgain \<and>
   broadcasts (pollTick ''/srv/repo'' (Inr polledOnce) polling) = [(''/srv/repo'', None)] \<and>
   broadcasts (pollTick ''/srv/repo'' (Inr polledAgain)
                 (pollTick ''/srv/repo'' (Inr polledOnce) polling)) = [(''/srv/repo'', None)]"
proof -
  have eq: "map (\<lambda>c. (path c, status c, isStaged c)) polledOnce =
     map (\<lambda>c. (path c, status c, isStaged c)) polledAgain"
    by (simp add: polledOnce_def polledAgain_def)
  have ne: "polledOnce \<noteq> polledAgain"
    by (simp add: polledOnce_def polledAgain_def)
  have h1: "statusHash polledOnce = ''a.ts:modified:false''"
    by (simp add: statusHash_def polledOnce_def)
  have b1: "broadcasts (pollTick ''/srv/repo'' (Inr polledOnce) polling) = [(''/srv/repo'', None)]"
    by (simp add: pollTick_def polling_def ensureRemoteStatusPoller_def initialIpcState_def h1)
  from poll_fingerprint [OF eq, of "''/srv/repo''" polling] eq ne h1 b1
  show ?thesis by simp
qed

end
